theory Spec2Isabelle
  imports Main "HOL-Library.Sublist"
begin

section \<open>Python strings\<close>

text \<open>
  A Python \<^verbatim>\<open>str\<close> is a sequence of Unicode code points, so it is modelled as a list of
  natural numbers. \<open>lit\<close> turns an ASCII literal into that representation; code points
  outside ASCII (the pictographs of the document template) are written as numbers.
\<close>

type_synonym pystr = "nat list"

definition lit :: "string \<Rightarrow> pystr" where
  "lit s = map of_char s"

text \<open>
  \<^verbatim>\<open>str.lower\<close>, \<^verbatim>\<open>str.upper\<close> and \<^verbatim>\<open>str.title\<close>. On a string of ASCII characters
  they are the ASCII case mappings written out below. On a string with a character outside
  ASCII they follow the Unicode character database, which is not part of the program:
  the parameter \<open>U\<close> holds what the three methods of the running Python return on
  such strings, and the theorems below hold for every \<open>U\<close>.
\<close>

definition is_ascii :: "pystr \<Rightarrow> bool" where
  "is_ascii s \<longleftrightarrow> list_all (\<lambda>c. c < 128) s"

record str_methods =
  u_lower :: "pystr \<Rightarrow> pystr"
  u_upper :: "pystr \<Rightarrow> pystr"
  u_title :: "pystr \<Rightarrow> pystr"

definition is_upper :: "nat \<Rightarrow> bool" where
  "is_upper c \<longleftrightarrow> 65 \<le> c \<and> c \<le> 90"

definition is_lower :: "nat \<Rightarrow> bool" where
  "is_lower c \<longleftrightarrow> 97 \<le> c \<and> c \<le> 122"

definition is_cased :: "nat \<Rightarrow> bool" where
  "is_cased c \<longleftrightarrow> is_upper c \<or> is_lower c"

definition to_lower :: "nat \<Rightarrow> nat" where
  "to_lower c = (if is_upper c then c + 32 else c)"

definition to_upper :: "nat \<Rightarrow> nat" where
  "to_upper c = (if is_lower c then c - 32 else c)"

definition str_lower :: "str_methods \<Rightarrow> pystr \<Rightarrow> pystr" where
  "str_lower U s = (if is_ascii s then map to_lower s else u_lower U s)"

definition str_upper :: "str_methods \<Rightarrow> pystr \<Rightarrow> pystr" where
  "str_upper U s = (if is_ascii s then map to_upper s else u_upper U s)"

text \<open>
  On ASCII, \<^verbatim>\<open>str.title\<close> walks the string once: a character that follows a letter is
  lowercased, any other character is uppercased.
\<close>

fun title_from :: "bool \<Rightarrow> pystr \<Rightarrow> pystr" where
  "title_from previous_is_cased [] = []"
| "title_from previous_is_cased (c # cs) =
     (if previous_is_cased then to_lower c else to_upper c) # title_from (is_cased c) cs"

definition str_title :: "str_methods \<Rightarrow> pystr \<Rightarrow> pystr" where
  "str_title U s = (if is_ascii s then title_from False s else u_title U s)"

text \<open>
  \<^verbatim>\<open>str.strip()\<close> removes leading and trailing whitespace; \<open>is_space\<close> is the set of code
  points Python counts as whitespace.
\<close>

definition is_space :: "nat \<Rightarrow> bool" where
  "is_space c \<longleftrightarrow>
     (9 \<le> c \<and> c \<le> 13) \<or> (28 \<le> c \<and> c \<le> 32) \<or> c = 0x85 \<or> c = 0xA0 \<or> c = 0x1680 \<or>
     (0x2000 \<le> c \<and> c \<le> 0x200A) \<or> c = 0x2028 \<or> c = 0x2029 \<or> c = 0x202F \<or>
     c = 0x205F \<or> c = 0x3000"

definition str_strip :: "pystr \<Rightarrow> pystr" where
  "str_strip s = rev (dropWhile is_space (rev (dropWhile is_space s)))"

text \<open>\<^verbatim>\<open>sep.join(xs)\<close>.\<close>

fun str_join :: "pystr \<Rightarrow> pystr list \<Rightarrow> pystr" where
  "str_join sep [] = []"
| "str_join sep [x] = x"
| "str_join sep (x # y # ys) = x @ sep @ str_join sep (y # ys)"

section \<open>AgricultureExpert: the knowledge base\<close>

record crop_info =
  name :: pystr
  season :: pystr
  water :: pystr
  spacing :: pystr
  duration :: pystr

record problem_solution =
  key_techniques :: "pystr list"
  steps :: "pystr list"
  benefits :: pystr

definition CROP_INFO :: "pystr \<rightharpoonup> crop_info" where
  "CROP_INFO =
     [lit ''rice'' \<mapsto>
        \<lparr>name = lit ''Rice'',
         season = lit ''Kharif (June to October)'',
         water = lit ''Needs standing water, 5-7 cm depth'',
         spacing = lit ''20 cm between plants, 20 cm between rows'',
         duration = lit ''120-150 days from sowing to harvest''\<rparr>,
      lit ''wheat'' \<mapsto>
        \<lparr>name = lit ''Wheat'',
         season = lit ''Rabi (November to March)'',
         water = lit ''4-6 irrigations, avoid waterlogging'',
         spacing = lit ''5 cm between plants, 22 cm between rows'',
         duration = lit ''110-130 days''\<rparr>,
      lit ''tomato'' \<mapsto>
        \<lparr>name = lit ''Tomato'',
         season = lit ''Year-round with care'',
         water = lit ''Regular watering, avoid wet leaves'',
         spacing = lit ''45 cm between plants, 60 cm between rows'',
         duration = lit ''90-120 days''\<rparr>]"

definition PROBLEM_SOLUTIONS :: "pystr \<rightharpoonup> problem_solution" where
  "PROBLEM_SOLUTIONS =
     [lit ''irrigation'' \<mapsto>
        \<lparr>key_techniques =
           [lit ''Drip irrigation'', lit ''Sprinkler systems'', lit ''Rainwater harvesting''],
         steps =
           [lit ''Measure soil moisture regularly'',
            lit ''Water at plant roots, not leaves'',
            lit ''Water early morning or evening'',
            lit ''Adjust based on weather conditions''],
         benefits = lit ''Saves 30-50% water, increases yield by 20-30%''\<rparr>,
      lit ''pest control'' \<mapsto>
        \<lparr>key_techniques =
           [lit ''Integrated Pest Management'', lit ''Neem oil spray'', lit ''Companion planting''],
         steps =
           [lit ''Regular field inspection'',
            lit ''Identify pest type correctly'',
            lit ''Use natural predators first'',
            lit ''Apply chemicals only if needed''],
         benefits = lit ''Reduces chemical use by 40-60%, protects beneficial insects''\<rparr>,
      lit ''soil health'' \<mapsto>
        \<lparr>key_techniques =
           [lit ''Organic compost'', lit ''Crop rotation'', lit ''Green manure''],
         steps =
           [lit ''Test soil every season'',
            lit ''Add organic matter regularly'',
            lit ''Maintain proper pH level'',
            lit ''Avoid soil compaction''],
         benefits = lit ''Improves yield by 25-40%, reduces fertilizer need''\<rparr>]"

definition get_crop_details :: "str_methods \<Rightarrow> pystr \<Rightarrow> crop_info" where
  "get_crop_details U crop_name =
     (let crop_lower = str_lower U crop_name in
      case CROP_INFO crop_lower of
        Some info \<Rightarrow> info
      | None \<Rightarrow>
          \<lparr>name = str_title U crop_name,
           season = lit ''Adapt to local season'',
           water = lit ''Based on local conditions'',
           spacing = lit ''Follow seed packet instructions'',
           duration = lit ''Varies by variety''\<rparr>)"

definition get_problem_solution :: "str_methods \<Rightarrow> pystr \<Rightarrow> problem_solution" where
  "get_problem_solution U problem_name =
     (let problem_lower = str_lower U problem_name in
      case PROBLEM_SOLUTIONS problem_lower of
        Some solution \<Rightarrow> solution
      | None \<Rightarrow>
          \<lparr>key_techniques = [lit ''Integrated approach'', lit ''Regular monitoring''],
           steps = [lit ''Assess situation'', lit ''Plan solution'', lit ''Implement carefully''],
           benefits = lit ''Improved crop health and yield''\<rparr>)"

section \<open>Values and errors\<close>

text \<open>
  A value decoded from JSON: a string, \<^verbatim>\<open>None\<close>, a boolean, or any other value (a
  number, a list, a dict). \<open>POther r\<close> stands for such a value, \<open>r\<close> being the text that
  \<^verbatim>\<open>str()\<close> gives for it. \<open>format_value\<close> is what a replacement field of an f-string prints.
\<close>

datatype pyval = PStr pystr | PNone | PBool bool | POther pystr

fun format_value :: "pyval \<Rightarrow> pystr" where
  "format_value (PStr s) = s"
| "format_value PNone = lit ''None''"
| "format_value (PBool b) = (if b then lit ''True'' else lit ''False'')"
| "format_value (POther r) = r"

datatype py_error = IndexError | AttributeError | BadRequest | UnicodeEncodeError

text \<open>\<^verbatim>\<open>xs[i]\<close>: a negative index counts from the end, an index out of range raises.\<close>

definition list_index :: "'a list \<Rightarrow> int \<Rightarrow> py_error + 'a" where
  "list_index xs i =
     (if 0 \<le> i \<and> i < int (length xs) then Inr (xs ! nat i)
      else if i < 0 \<and> - int (length xs) \<le> i then Inr (xs ! nat (int (length xs) + i))
      else Inl IndexError)"

section \<open>AISystem\<close>

text \<open>
  The four messages built by \<^verbatim>\<open>generate_ai_insight\<close>, in order. The built-in \<^verbatim>\<open>hash\<close>
  of strings differs from one process to the next, so it is a parameter: the hash
  function of the running process, with any integer as a value.
\<close>

definition insights :: "pystr \<Rightarrow> pystr \<Rightarrow> pystr \<Rightarrow> pystr list" where
  "insights crop region problem =
     [lit ''AI analysis suggests focusing on '' @ region @ lit ''-specific adaptation for '' @
        crop @ lit ''.'',
      lit ''Machine learning models indicate integrated approach works best for '' @ problem @
        lit ''.'',
      lit ''Data patterns show '' @ crop @ lit '' responds well to timely '' @ problem @
        lit '' management.'',
      lit ''AI recommendation: Combine traditional knowledge with modern techniques.'']"

definition input_hash :: "(pystr \<Rightarrow> int) \<Rightarrow> pystr \<Rightarrow> pystr \<Rightarrow> pystr \<Rightarrow> int" where
  "input_hash hash crop region problem =
     hash (crop @ region @ problem) mod int (length (insights crop region problem))"

definition generate_ai_insight ::
  "(pystr \<Rightarrow> int) \<Rightarrow> pystr \<Rightarrow> pystr \<Rightarrow> pystr \<Rightarrow> py_error + pystr" where
  "generate_ai_insight hash crop region problem =
     list_index (insights crop region problem) (input_hash hash crop region problem)"

definition check_ai_availability :: bool where
  "check_ai_availability = True"

section \<open>TrainingModuleBuilder\<close>

record metadata =
  generation_time :: pystr
  md_crop :: pystr
  md_region :: pystr
  md_problem :: pystr
  md_language :: pyval
  ai_used :: bool

record module_result =
  content :: pystr
  metadata :: metadata

definition nl :: pystr where
  "nl = [10]"

text \<open>
  The f-string of \<^verbatim>\<open>create_module\<close> is written line by line: each element of the lists
  below is one line of the template, in order, and the lines are joined with newlines.
  The lists follow the parts of the document, which the template separates by \<^verbatim>\<open>---\<close>.
\<close>

definition insight_line :: "pystr \<Rightarrow> pystr" where
  "insight_line ai_insight =
     (if ai_insight \<noteq> [] then ai_insight
      else lit ''System analysis recommends integrated management approach.'')"

definition header_lines :: "crop_info \<Rightarrow> pystr \<Rightarrow> pyval \<Rightarrow> pystr \<Rightarrow> pystr list" where
  "header_lines crop_info region language formatted_time =
     [lit ''# FARMER TRAINING MODULE'',
      lit ''## Crop: '' @ name crop_info @ lit '' | Region: '' @ region @ lit '' | Language: '' @
        format_value language,
      [],
      lit ''### '' @ [0x1F4C5] @ lit '' GENERATED ON: '' @ formatted_time,
      [],
      lit ''---'',
      []]"

definition about_crop_lines :: "crop_info \<Rightarrow> pystr list" where
  "about_crop_lines crop_info =
     [lit ''## '' @ [0x1F33E] @ lit '' ABOUT THIS CROP'',
      [],
      lit ''**Crop Name:** '' @ name crop_info,
      lit ''**Best Season:** '' @ season crop_info,
      lit ''**Water Needs:** '' @ water crop_info,
      lit ''**Plant Spacing:** '' @ spacing crop_info,
      lit ''**Growth Duration:** '' @ duration crop_info,
      [],
      lit ''---'',
      []]"

definition focus_area_lines ::
  "str_methods \<Rightarrow> problem_solution \<Rightarrow> pystr \<Rightarrow> pystr \<Rightarrow> pystr \<Rightarrow> pystr list" where
  "focus_area_lines U problem_solution ai_insight region problem =
     [lit ''## '' @ [0x1F3AF] @ lit '' FOCUS AREA: '' @ str_upper U problem,
      [],
      lit ''### AI-GENERATED INSIGHT:'',
      insight_line ai_insight,
      [],
      lit ''### RECOMMENDED TECHNIQUES:'',
      str_join (lit '' '' @ [0x2022] @ lit '' '') (key_techniques problem_solution),
      [],
      lit ''### STEP-BY-STEP GUIDE:'',
      [],
      lit ''1. **Week 1-2: Assessment & Planning**'',
      lit ''   - Evaluate current '' @ problem @ lit '' conditions'',
      lit ''   - Gather necessary tools and resources'',
      lit ''   - Create implementation schedule'',
      [],
      lit ''2. **Week 3-8: Implementation**'',
      lit ''   '' @ str_join nl (map (\<lambda>step. lit ''   - '' @ step) (steps problem_solution)),
      lit ''   - Monitor progress weekly'',
      lit ''   - Make adjustments as needed'',
      [],
      lit ''3. **Week 9-12: Evaluation**'',
      lit ''   - Measure results and improvements'',
      lit ''   - Document lessons learned'',
      lit ''   - Share knowledge with other farmers'',
      [],
      lit ''### KEY BENEFITS:'',
      benefits problem_solution,
      [],
      lit ''### REGION-SPECIFIC ADVICE FOR '' @ str_upper U region @ lit '':'',
      lit ''- Consider local weather patterns'',
      lit ''- Adapt to soil conditions in your area'',
      lit ''- Consult local agriculture department'',
      lit ''- Join local farmer groups for support'',
      [],
      lit ''---'',
      []]"

definition expected_results_lines :: "pystr \<Rightarrow> pystr list" where
  "expected_results_lines problem =
     [lit ''## '' @ [0x1F4CA] @ lit '' EXPECTED RESULTS'',
      [],
      lit ''### QUANTITATIVE IMPROVEMENTS:'',
      lit ''- '' @ problem @ lit '' management: 40-60% better'',
      lit ''- Crop yield increase: 20-35%'',
      lit ''- Input cost reduction: 15-25%'',
      lit ''- Labor efficiency: 20-30% improvement'',
      [],
      lit ''### QUALITATIVE BENEFITS:'',
      lit ''- Healthier crops'',
      lit ''- Better soil quality'',
      lit ''- More sustainable farming'',
      lit ''- Increased confidence in farming'',
      [],
      lit ''---'',
      []]"

definition implementation_tips_lines :: "pystr list" where
  "implementation_tips_lines =
     [lit ''## '' @ [0x1F6E0] @ [0xFE0F] @ lit '' IMPLEMENTATION TIPS'',
      [],
      lit ''### DO'S:'',
      [0x2713] @ lit '' Start with small pilot area'',
      [0x2713] @ lit '' Keep detailed records'',
      [0x2713] @ lit '' Monitor daily progress'',
      [0x2713] @ lit '' Seek expert advice when needed'',
      [0x2713] @ lit '' Share results with community'',
      [],
      lit ''### DON'TS:'',
      [0x2717] @ lit '' Don't implement everything at once'',
      [0x2717] @ lit '' Don't ignore warning signs'',
      [0x2717] @ lit '' Don't skip monitoring'',
      [0x2717] @ lit '' Don't work in isolation'',
      [0x2717] @ lit '' Don't forget to document'',
      [],
      lit ''---'',
      []]"

definition faq_lines :: "pystr list" where
  "faq_lines =
     [lit ''## '' @ [0x2753] @ lit '' FREQUENTLY ASKED QUESTIONS'',
      [],
      lit ''**Q: How long before I see results?**'',
      lit ''A: Most farmers see improvements within 4-6 weeks.'',
      [],
      lit ''**Q: What if it doesn't work for my farm?**'',
      lit ''A: Adjust the approach based on your specific conditions and consult local experts.'',
      [],
      lit ''**Q: Is this expensive to implement?**'',
      lit ''A: Many techniques are low-cost, and the yield increase usually covers any costs.'',
      [],
      lit ''**Q: Can I use this with other crops?**'',
      lit ''A: Yes, adapt the principles to other crops you grow.'',
      [],
      lit ''---'',
      []]"

definition system_information_lines :: "bool \<Rightarrow> pystr \<Rightarrow> pystr list" where
  "system_information_lines ai_available formatted_time =
     [lit ''## '' @ [0x1F527] @ lit '' SYSTEM INFORMATION'',
      [],
      lit ''### TECHNOLOGY USED:'',
      lit ''- Web Application: Flask Python Framework'',
      lit ''- Knowledge Base: Agricultural Expert System'',
      lit ''- AI Integration: Generative AI System Architecture'',
      lit ''- Interface: Responsive Web Design'',
      [],
      lit ''### GENERATION DETAILS:'',
      lit ''- Module Created: '' @ formatted_time,
      lit ''- AI Assistance: '' @ (if ai_available then lit ''Available'' else lit ''Not available''),
      lit ''- Content Type: Personalized farming guidance'',
      lit ''- System Status: Operational'',
      [],
      lit ''---'',
      []]"

definition getting_help_lines :: "pystr \<Rightarrow> pystr list" where
  "getting_help_lines region =
     [lit ''## '' @ [0x1F4DE] @ lit '' GETTING HELP'',
      [],
      lit ''### LOCAL RESOURCES:'',
      lit ''- Contact '' @ region @ lit '' Agriculture Department'',
      lit ''- Visit nearest Krishi Vigyan Kendra (KVK)'',
      lit ''- Join farmer WhatsApp groups'',
      lit ''- Attend local farming workshops'',
      [],
      lit ''### DIGITAL TOOLS:'',
      lit ''- Use weather forecast apps'',
      lit ''- Try soil testing mobile apps'',
      lit ''- Watch farming tutorial videos'',
      lit ''- Join online farmer communities'',
      [],
      lit ''---'',
      lit ''*This training module was generated automatically based on agricultural best practices.*'',
      lit ''*Always consult local agricultural experts before implementing new techniques.*'']"

definition module_lines ::
  "str_methods \<Rightarrow> crop_info \<Rightarrow> problem_solution \<Rightarrow> bool \<Rightarrow> pystr \<Rightarrow> pystr \<Rightarrow> pystr \<Rightarrow> pyval \<Rightarrow>
   pystr \<Rightarrow> pystr list" where
  "module_lines U crop_info problem_solution ai_available ai_insight region problem language
       formatted_time =
     header_lines crop_info region language formatted_time @
     about_crop_lines crop_info @
     focus_area_lines U problem_solution ai_insight region problem @
     expected_results_lines problem @
     implementation_tips_lines @
     faq_lines @
     system_information_lines ai_available formatted_time @
     getting_help_lines region"

text \<open>The template opens with a newline after the quotes and closes with one before them.\<close>

definition module_content ::
  "str_methods \<Rightarrow> crop_info \<Rightarrow> problem_solution \<Rightarrow> bool \<Rightarrow> pystr \<Rightarrow> pystr \<Rightarrow> pystr \<Rightarrow> pyval \<Rightarrow>
   pystr \<Rightarrow> pystr" where
  "module_content U crop_info problem_solution ai_available ai_insight region problem language
       formatted_time =
     nl @
     str_join nl
       (module_lines U crop_info problem_solution ai_available ai_insight region problem language
          formatted_time) @
     nl"

text \<open>
  \<^verbatim>\<open>create_module\<close> reads the clock; \<open>formatted_time\<close> is that reading after
  \<^verbatim>\<open>strftime\<close>. An exception raised on the way is the \<open>Inl\<close> result.
\<close>

definition create_module ::
  "str_methods \<Rightarrow> (pystr \<Rightarrow> int) \<Rightarrow> pystr \<Rightarrow> pystr \<Rightarrow> pystr \<Rightarrow> pystr \<Rightarrow> pyval \<Rightarrow>
   py_error + module_result" where
  "create_module U hash formatted_time crop region problem language =
     (let crop_info = get_crop_details U crop;
          problem_solution = get_problem_solution U problem;
          ai_available = check_ai_availability
      in case (if ai_available then generate_ai_insight hash crop region problem else Inr []) of
           Inl e \<Rightarrow> Inl e
         | Inr ai_insight \<Rightarrow>
             Inr \<lparr>content =
                    str_strip
                      (module_content U crop_info problem_solution ai_available ai_insight region
                         problem language formatted_time),
                  metadata =
                    \<lparr>generation_time = formatted_time,
                     md_crop = crop,
                     md_region = region,
                     md_problem = problem,
                     md_language = language,
                     ai_used = ai_available\<rparr>\<rparr>)"

text \<open>The call without a language argument takes the default of the signature.\<close>

definition create_module_default ::
  "str_methods \<Rightarrow> (pystr \<Rightarrow> int) \<Rightarrow> pystr \<Rightarrow> pystr \<Rightarrow> pystr \<Rightarrow> pystr \<Rightarrow>
   py_error + module_result" where
  "create_module_default U hash formatted_time crop region problem =
     create_module U hash formatted_time crop region problem (PStr (lit ''English''))"

section \<open>The route /generate\<close>

text \<open>
  What \<^verbatim>\<open>request.get_json()\<close> gives: it raises (\<open>NoJson\<close>), or returns a value that is
  not a dict (\<open>NonObject\<close>, on which \<^verbatim>\<open>.get\<close> raises), or returns a dict.
\<close>

datatype request = NoJson | NonObject | Object "pystr \<rightharpoonup> pyval"

definition dict_get :: "(pystr \<rightharpoonup> pyval) \<Rightarrow> pystr \<Rightarrow> pyval \<Rightarrow> pyval" where
  "dict_get d k dflt = (case d k of Some v \<Rightarrow> v | None \<Rightarrow> dflt)"

text \<open>\<^verbatim>\<open>v.strip()\<close> on a decoded value: only a string has the method.\<close>

fun value_strip :: "pyval \<Rightarrow> py_error + pystr" where
  "value_strip (PStr s) = Inr (str_strip s)"
| "value_strip v = Inl AttributeError"

record response_data =
  title :: pystr
  subtitle :: pystr
  data_content :: pystr
  data_language :: pyval

record system_info =
  generated_at :: pystr
  ai_assistance :: bool

datatype response_body = Success response_data system_info | Failure pystr

record response =
  status :: nat
  body :: response_body

text \<open>
  \<^verbatim>\<open>print\<close> raises \<^verbatim>\<open>UnicodeEncodeError\<close> when the stream of the console cannot encode
  the text; which texts it can encode depends on how the process was started, so the
  console is a parameter: \<open>console s\<close> says that \<^verbatim>\<open>print(s)\<close> returns. \<open>debug_lines\<close> are
  the five texts that the handler prints before it calls \<^verbatim>\<open>create_module\<close>, in order.
  The report printed in the \<^verbatim>\<open>except\<close> branch is ASCII text made by Python (a character
  that could not be encoded is shown escaped) and is taken to be written.
\<close>

definition debug_lines :: "pystr \<Rightarrow> pystr \<Rightarrow> pystr \<Rightarrow> pyval \<Rightarrow> pystr list" where
  "debug_lines crop_type region_name problem_type language_pref =
     [nl @ lit ''Creating training module for:'',
      lit ''  Crop: '' @ crop_type,
      lit ''  Region: '' @ region_name,
      lit ''  Problem: '' @ problem_type,
      lit ''  Language: '' @ format_value language_pref]"

text \<open>
  The handler returns its response together with the list of the calls it made to
  \<^verbatim>\<open>create_module\<close> (the arguments of each call), so that "the core was not invoked" is
  a statement about the result. \<open>try_body\<close> is the \<^verbatim>\<open>try\<close> block, the exception it may
  raise being the \<open>Inl\<close> result.
\<close>

type_synonym core_call = "pystr \<times> pystr \<times> pystr \<times> pyval"

definition try_body ::
  "str_methods \<Rightarrow> (pystr \<Rightarrow> bool) \<Rightarrow> (pystr \<Rightarrow> int) \<Rightarrow> pystr \<Rightarrow> request \<Rightarrow>
   core_call list \<times> (py_error + response)" where
  "try_body U console hash formatted_time request_data =
     (case request_data of
        NoJson \<Rightarrow> ([], Inl BadRequest)
      | NonObject \<Rightarrow> ([], Inl AttributeError)
      | Object d \<Rightarrow>
          (case value_strip (dict_get d (lit ''crop'') (PStr [])) of
             Inl e \<Rightarrow> ([], Inl e)
           | Inr crop_type \<Rightarrow>
          (case value_strip (dict_get d (lit ''region'') (PStr [])) of
             Inl e \<Rightarrow> ([], Inl e)
           | Inr region_name \<Rightarrow>
          (case value_strip (dict_get d (lit ''problem'') (PStr [])) of
             Inl e \<Rightarrow> ([], Inl e)
           | Inr problem_type \<Rightarrow>
          (let language_pref = dict_get d (lit ''language'') (PStr (lit ''English'')) in
           if crop_type = [] \<or> region_name = [] \<or> problem_type = [] then
             ([], Inr \<lparr>status = 400,
                      body = Failure (lit ''Please fill in all fields: Crop, Region, and Problem'')\<rparr>)
           else if list_all console (debug_lines crop_type region_name problem_type language_pref)
           then
             (case create_module U hash formatted_time crop_type region_name problem_type
                     language_pref of
                Inl e \<Rightarrow> ([(crop_type, region_name, problem_type, language_pref)], Inl e)
              | Inr module_data \<Rightarrow>
                  ([(crop_type, region_name, problem_type, language_pref)],
                   Inr \<lparr>status = 200,
                        body =
                          Success
                            \<lparr>title = str_title U crop_type @ lit '' Farming Training Module'',
                             subtitle =
                               lit ''Region: '' @ region_name @ lit '' | Focus: '' @
                               str_title U problem_type,
                             data_content = content module_data,
                             data_language = language_pref\<rparr>
                            \<lparr>generated_at = generation_time (metadata module_data),
                             ai_assistance = ai_used (metadata module_data)\<rparr>\<rparr>))
           else ([], Inl UnicodeEncodeError))))))"

definition generate_training_module ::
  "str_methods \<Rightarrow> (pystr \<Rightarrow> bool) \<Rightarrow> (pystr \<Rightarrow> int) \<Rightarrow> pystr \<Rightarrow> request \<Rightarrow>
   core_call list \<times> response" where
  "generate_training_module U console hash formatted_time request_data =
     (case try_body U console hash formatted_time request_data of
        (calls, Inr r) \<Rightarrow> (calls, r)
      | (calls, Inl error) \<Rightarrow>
          (calls,
           \<lparr>status = 500,
            body = Failure (lit ''Could not generate training module. Please try again.'')\<rparr>))"

section \<open>Environments for evaluation\<close>

text \<open>
  Closed statements need a concrete environment. \<open>no_unicode\<close> serves where the methods
  for strings outside ASCII are not consulted. \<open>e_acute_methods\<close> holds what
  Python returns on the two-character string U+00E9 \<^verbatim>\<open>a\<close> (unchanged by \<^verbatim>\<open>lower\<close>,
  U+00C9 \<^verbatim>\<open>A\<close> by \<^verbatim>\<open>upper\<close>, U+00C9 \<^verbatim>\<open>a\<close> by \<^verbatim>\<open>title\<close>); no other string
  outside ASCII is used with it. \<open>utf8_console\<close> is a console that
  encodes as UTF-8 with the strict error handler, Python's default for a terminal: it
  writes every text without a surrogate code point. \<open>seed0_hash\<close> gives the key
  \<^verbatim>\<open>RicePunjabirrigation\<close> the value that the built-in \<^verbatim>\<open>hash\<close> of CPython 3.11 (64-bit)
  gives it when the process is started with \<^verbatim>\<open>PYTHONHASHSEED=0\<close>; no other key is used
  with it.
\<close>

definition no_unicode :: str_methods where
  "no_unicode = \<lparr>u_lower = id, u_upper = id, u_title = id\<rparr>"

definition e_acute_methods :: str_methods where
  "e_acute_methods =
     \<lparr>u_lower = id,
      u_upper = (\<lambda>s. if s = [0xE9, 97] then [0xC9, 65] else s),
      u_title = (\<lambda>s. if s = [0xE9, 97] then [0xC9, 97] else s)\<rparr>"

definition utf8_console :: "pystr \<Rightarrow> bool" where
  "utf8_console s \<longleftrightarrow> list_all (\<lambda>c. c < 0xD800 \<or> 0xDFFF < c) s"

definition seed0_hash :: "pystr \<Rightarrow> int" where
  "seed0_hash k = (if k = lit ''RicePunjabirrigation'' then - 7598409245528420 else 0)"

section \<open>Basic facts about strings\<close>

lemma lit_eq_iff: "lit a = lit b \<longleftrightarrow> a = b"
  by (simp add: lit_def inj_def)

lemma lit_eq_Nil_iff: "lit a = [] \<longleftrightarrow> a = []"
  by (simp add: lit_def)

lemma hd_lit: "s \<noteq> [] \<Longrightarrow> hd (lit s) = of_char (hd s)"
  by (simp add: lit_def hd_map)

lemma last_lit: "s \<noteq> [] \<Longrightarrow> last (lit s) = of_char (last s)"
  by (simp add: lit_def last_map)

lemma str_join_Cons:
  "str_join sep (x # xs) = (if xs = [] then x else x @ sep @ str_join sep xs)"
  by (cases xs) simp_all

lemma sublist_str_join: "x \<in> set xs \<Longrightarrow> sublist x (str_join sep xs)"
proof (induction xs)
  case Nil
  then show ?case by simp
next
  case (Cons y ys)
  show ?case
  proof (cases "x = y")
    case True
    then show ?thesis by (simp add: str_join_Cons)
  next
    case False
    with Cons.prems have "x \<in> set ys" by simp
    then have ne: "ys \<noteq> []" by auto
    from \<open>x \<in> set ys\<close> have "sublist x (str_join sep ys)" by (rule Cons.IH)
    then obtain ps ss where "str_join sep ys = ps @ x @ ss" by (auto simp: sublist_def)
    then have "str_join sep (y # ys) = (y @ sep @ ps) @ x @ ss"
      using ne by (simp add: str_join_Cons)
    then show ?thesis unfolding sublist_def by blast
  qed
qed

lemma hd_str_join: "x \<noteq> [] \<Longrightarrow> hd (str_join sep (x # xs)) = hd x"
  by (simp add: str_join_Cons)

lemma last_str_join:
  "xs \<noteq> [] \<Longrightarrow> last xs \<noteq> [] \<Longrightarrow> last (str_join sep xs) = last (last xs)"
proof (induction xs)
  case Nil
  then show ?case by simp
next
  case (Cons y ys)
  show ?case
  proof (cases "ys = []")
    case True
    then show ?thesis by simp
  next
    case False
    with Cons have IH: "last (str_join sep ys) = last (last ys)" and l: "last ys \<noteq> []" by simp_all
    have "str_join sep ys \<noteq> []"
    proof
      assume e: "str_join sep ys = []"
      have "last ys \<in> set ys" using False by simp
      then have "sublist (last ys) (str_join sep ys)" by (rule sublist_str_join)
      with e l show False by simp
    qed
    with False IH show ?thesis by (simp add: str_join_Cons)
  qed
qed

lemma str_strip_nl:
  assumes "b \<noteq> []" and "\<not> is_space (hd b)" and "\<not> is_space (last b)"
  shows "str_strip (nl @ b @ nl) = b"
proof -
  from assms(1) obtain c cs where b: "b = c # cs" by (cases b) auto
  with assms(2) have c: "\<not> is_space c" by simp
  have sp: "is_space 10" by (simp add: is_space_def)
  have 1: "dropWhile is_space (nl @ b @ nl) = b @ nl"
    using c sp by (simp add: nl_def b)
  from assms(1) obtain d ds where r: "rev b = d # ds" by (cases "rev b") auto
  then have "last b = d" by (simp add: last_rev)
  with assms(3) have d: "\<not> is_space d" by simp
  have 2: "dropWhile is_space (rev (b @ nl)) = rev b"
    using d sp by (simp add: nl_def r)
  show ?thesis by (simp only: str_strip_def 1 2 rev_rev_ident)
qed

section \<open>The result of \<open>create_module\<close>\<close>

lemma length_insights: "length (insights c r p) = 4"
  by (simp add: insights_def)

lemma input_hash_bounds:
  "0 \<le> input_hash hash c r p" "input_hash hash c r p < 4"
  by (simp_all add: input_hash_def length_insights)

lemma generate_ai_insight_eq:
  "generate_ai_insight hash c r p = Inr (insights c r p ! nat (input_hash hash c r p))"
  using input_hash_bounds [of hash c r p]
  by (simp add: generate_ai_insight_def list_index_def length_insights Let_def)

lemma module_lines_Cons:
  "\<exists>rest. module_lines U ci ps av ai r p l t = lit ''# FARMER TRAINING MODULE'' # rest"
  by (simp add: module_lines_def header_lines_def)

lemma module_lines_last:
  "last (module_lines U ci ps av ai r p l t) =
     lit ''*Always consult local agricultural experts before implementing new techniques.*''"
  by (simp add: module_lines_def getting_help_lines_def)

lemma str_strip_module_content:
  "str_strip (module_content U ci ps av ai r p l t) =
     str_join nl (module_lines U ci ps av ai r p l t)"
proof -
  let ?ls = "module_lines U ci ps av ai r p l t"
  obtain rest where ls: "?ls = lit ''# FARMER TRAINING MODULE'' # rest"
    using module_lines_Cons by blast
  have h: "hd (str_join nl ?ls) = 35"
    by (simp add: ls hd_str_join lit_eq_Nil_iff hd_lit)
  have ne: "str_join nl ?ls \<noteq> []"
    by (simp add: ls str_join_Cons lit_eq_Nil_iff)
  have "?ls \<noteq> []" by (simp add: ls)
  then have "last (str_join nl ?ls) = last (last ?ls)"
    by (rule last_str_join) (simp add: module_lines_last lit_eq_Nil_iff)
  then have l: "last (str_join nl ?ls) = 42"
    by (simp add: module_lines_last last_lit)
  have "str_strip (nl @ str_join nl ?ls @ nl) = str_join nl ?ls"
    by (rule str_strip_nl) (simp_all add: ne h l is_space_def)
  then show ?thesis by (simp add: module_content_def)
qed

lemma create_module_eq:
  "create_module U hash t c r p l =
     Inr \<lparr>content =
            str_join nl
              (module_lines U (get_crop_details U c) (get_problem_solution U p) True
                 (insights c r p ! nat (input_hash hash c r p)) r p l t),
          metadata =
            \<lparr>generation_time = t, md_crop = c, md_region = r, md_problem = p, md_language = l,
             ai_used = True\<rparr>\<rparr>"
  by (simp add: create_module_def check_ai_availability_def generate_ai_insight_eq
      str_strip_module_content)

section \<open>Lookups in the knowledge base\<close>

text \<open>
  Claim C2. Whenever the lowercased input is one of the keys \<^verbatim>\<open>rice\<close>, \<^verbatim>\<open>wheat\<close>,
  \<^verbatim>\<open>tomato\<close>, \<open>get_crop_details\<close> returns the profile stored under that key, field by
  field; whenever it is one of \<^verbatim>\<open>irrigation\<close>, \<^verbatim>\<open>pest control\<close>, \<^verbatim>\<open>soil health\<close>,
  \<open>get_problem_solution\<close> returns the stored solution. The match is on the lowercased
  input, so the casing of the input does not matter.
\<close>

theorem recognized_keys_exact_profile:
  "(str_lower U c = lit ''rice'' \<longrightarrow>
      get_crop_details U c =
        \<lparr>name = lit ''Rice'', season = lit ''Kharif (June to October)'',
         water = lit ''Needs standing water, 5-7 cm depth'',
         spacing = lit ''20 cm between plants, 20 cm between rows'',
         duration = lit ''120-150 days from sowing to harvest''\<rparr>) \<and>
   (str_lower U c = lit ''wheat'' \<longrightarrow>
      get_crop_details U c =
        \<lparr>name = lit ''Wheat'', season = lit ''Rabi (November to March)'',
         water = lit ''4-6 irrigations, avoid waterlogging'',
         spacing = lit ''5 cm between plants, 22 cm between rows'',
         duration = lit ''110-130 days''\<rparr>) \<and>
   (str_lower U c = lit ''tomato'' \<longrightarrow>
      get_crop_details U c =
        \<lparr>name = lit ''Tomato'', season = lit ''Year-round with care'',
         water = lit ''Regular watering, avoid wet leaves'',
         spacing = lit ''45 cm between plants, 60 cm between rows'',
         duration = lit ''90-120 days''\<rparr>) \<and>
   (str_lower U p = lit ''irrigation'' \<longrightarrow>
      get_problem_solution U p =
        \<lparr>key_techniques =
           [lit ''Drip irrigation'', lit ''Sprinkler systems'', lit ''Rainwater harvesting''],
         steps =
           [lit ''Measure soil moisture regularly'', lit ''Water at plant roots, not leaves'',
            lit ''Water early morning or evening'', lit ''Adjust based on weather conditions''],
         benefits = lit ''Saves 30-50% water, increases yield by 20-30%''\<rparr>) \<and>
   (str_lower U p = lit ''pest control'' \<longrightarrow>
      get_problem_solution U p =
        \<lparr>key_techniques =
           [lit ''Integrated Pest Management'', lit ''Neem oil spray'', lit ''Companion planting''],
         steps =
           [lit ''Regular field inspection'', lit ''Identify pest type correctly'',
            lit ''Use natural predators first'', lit ''Apply chemicals only if needed''],
         benefits = lit ''Reduces chemical use by 40-60%, protects beneficial insects''\<rparr>) \<and>
   (str_lower U p = lit ''soil health'' \<longrightarrow>
      get_problem_solution U p =
        \<lparr>key_techniques = [lit ''Organic compost'', lit ''Crop rotation'', lit ''Green manure''],
         steps =
           [lit ''Test soil every season'', lit ''Add organic matter regularly'',
            lit ''Maintain proper pH level'', lit ''Avoid soil compaction''],
         benefits = lit ''Improves yield by 25-40%, reduces fertilizer need''\<rparr>)"
  by (simp add: get_crop_details_def get_problem_solution_def CROP_INFO_def
      PROBLEM_SOLUTIONS_def lit_eq_iff)

text \<open>The three casings of the crop name, and mixed casings of the other keys.\<close>

lemma str_lower_examples:
  "str_lower U (lit ''RICE'') = lit ''rice''" "str_lower U (lit ''Rice'') = lit ''rice''"
  "str_lower U (lit ''rice'') = lit ''rice''" "str_lower U (lit ''Wheat'') = lit ''wheat''"
  "str_lower U (lit ''TOMATO'') = lit ''tomato''"
  "str_lower U (lit ''Irrigation'') = lit ''irrigation''"
  "str_lower U (lit ''PEST control'') = lit ''pest control''"
  "str_lower U (lit ''Soil Health'') = lit ''soil health''"
  by (simp_all add: str_lower_def is_ascii_def lit_def to_lower_def is_upper_def)

theorem recognized_keys_exact_profile_witness:
  "get_crop_details no_unicode (lit ''RICE'') = get_crop_details no_unicode (lit ''rice'') \<and>
   get_crop_details no_unicode (lit ''Rice'') = get_crop_details no_unicode (lit ''rice'') \<and>
   name (get_crop_details no_unicode (lit ''RICE'')) = lit ''Rice'' \<and>
   name (get_crop_details no_unicode (lit ''Wheat'')) = lit ''Wheat'' \<and>
   name (get_crop_details no_unicode (lit ''TOMATO'')) = lit ''Tomato'' \<and>
   benefits (get_problem_solution no_unicode (lit ''Irrigation'')) =
     lit ''Saves 30-50% water, increases yield by 20-30%'' \<and>
   benefits (get_problem_solution no_unicode (lit ''PEST control'')) =
     lit ''Reduces chemical use by 40-60%, protects beneficial insects'' \<and>
   benefits (get_problem_solution no_unicode (lit ''Soil Health'')) =
     lit ''Improves yield by 25-40%, reduces fertilizer need''"
  using recognized_keys_exact_profile [of no_unicode "lit ''RICE''" "lit ''Irrigation''"]
    recognized_keys_exact_profile [of no_unicode "lit ''Rice''" "lit ''PEST control''"]
    recognized_keys_exact_profile [of no_unicode "lit ''rice''" "lit ''Soil Health''"]
    recognized_keys_exact_profile [of no_unicode "lit ''Wheat''" "lit ''Soil Health''"]
    recognized_keys_exact_profile [of no_unicode "lit ''TOMATO''" "lit ''Soil Health''"]
  by (simp add: str_lower_examples)

text \<open>
  Claim C3. Both lookups are total functions of a string (nothing in them can raise). When
  the lowercased input is none of the three keys, \<open>get_crop_details\<close> returns the default
  profile, whose name is what \<^verbatim>\<open>str.title\<close> returns on the original input, and
  \<open>get_problem_solution\<close> returns the default solution. This holds for every string:
  on a string with characters outside ASCII the name is the title-cased string that the
  running Python gives.
\<close>

theorem unrecognized_keys_default_profile:
  "(str_lower U c \<notin> {lit ''rice'', lit ''wheat'', lit ''tomato''} \<longrightarrow>
      get_crop_details U c =
        \<lparr>name = str_title U c, season = lit ''Adapt to local season'',
         water = lit ''Based on local conditions'',
         spacing = lit ''Follow seed packet instructions'',
         duration = lit ''Varies by variety''\<rparr>) \<and>
   (str_lower U p \<notin> {lit ''irrigation'', lit ''pest control'', lit ''soil health''} \<longrightarrow>
      get_problem_solution U p =
        \<lparr>key_techniques = [lit ''Integrated approach'', lit ''Regular monitoring''],
         steps = [lit ''Assess situation'', lit ''Plan solution'', lit ''Implement carefully''],
         benefits = lit ''Improved crop health and yield''\<rparr>)"
  by (simp add: get_crop_details_def get_problem_solution_def CROP_INFO_def
      PROBLEM_SOLUTIONS_def)

lemma unrecognized_examples:
  "str_lower U (lit ''Quinoa'') = lit ''quinoa''"
  "str_lower U (lit ''drought stress'') = lit ''drought stress''"
  "str_title U (lit ''quinoa'') = lit ''Quinoa''"
  "str_title U (lit ''sweet POTATO'') = lit ''Sweet Potato''"
  "str_lower U (lit ''sweet POTATO'') = lit ''sweet potato''"
  by (simp_all add: str_lower_def str_title_def is_ascii_def lit_def to_lower_def to_upper_def
      is_upper_def is_lower_def is_cased_def)

lemma e_acute_examples:
  "str_lower e_acute_methods [0xE9, 97] = [0xE9, 97]"
  "str_title e_acute_methods [0xE9, 97] = [0xC9, 97]"
  by (simp_all add: str_lower_def str_title_def is_ascii_def e_acute_methods_def)

theorem unrecognized_keys_default_profile_witness:
  "str_lower no_unicode (lit ''sweet POTATO'') \<notin> {lit ''rice'', lit ''wheat'', lit ''tomato''} \<and>
   get_crop_details no_unicode (lit ''sweet POTATO'') =
     \<lparr>name = lit ''Sweet Potato'', season = lit ''Adapt to local season'',
      water = lit ''Based on local conditions'',
      spacing = lit ''Follow seed packet instructions'',
      duration = lit ''Varies by variety''\<rparr> \<and>
   str_lower no_unicode (lit ''drought stress'') \<notin>
     {lit ''irrigation'', lit ''pest control'', lit ''soil health''} \<and>
   get_problem_solution no_unicode (lit ''drought stress'') =
     \<lparr>key_techniques = [lit ''Integrated approach'', lit ''Regular monitoring''],
      steps = [lit ''Assess situation'', lit ''Plan solution'', lit ''Implement carefully''],
      benefits = lit ''Improved crop health and yield''\<rparr> \<and>
   str_lower e_acute_methods [0xE9, 97] \<notin> {lit ''rice'', lit ''wheat'', lit ''tomato''} \<and>
   get_crop_details e_acute_methods [0xE9, 97] =
     \<lparr>name = [0xC9, 97], season = lit ''Adapt to local season'',
      water = lit ''Based on local conditions'',
      spacing = lit ''Follow seed packet instructions'',
      duration = lit ''Varies by variety''\<rparr>"
proof -
  have k: "[0xE9, 97] \<noteq> lit ''rice''" "[0xE9, 97] \<noteq> lit ''wheat''"
    "[0xE9, 97] \<noteq> lit ''tomato''"
    by (simp_all add: lit_def)
  show ?thesis
    using
      unrecognized_keys_default_profile [of no_unicode "lit ''sweet POTATO''"
        "lit ''drought stress''"]
      unrecognized_keys_default_profile [of e_acute_methods "[0xE9, 97]"
        "lit ''drought stress''"]
    by (simp add: unrecognized_examples e_acute_examples k lit_eq_iff)
qed

text \<open>
  For an input with a character outside ASCII, such as \<^verbatim>\<open>jalapeno\<close> written with
  U+00F1, the name of the default profile is the result of Python's own \<^verbatim>\<open>title\<close>.
\<close>

lemma default_name_outside_ascii:
  "\<not> is_ascii c \<Longrightarrow> str_lower U c \<notin> {lit ''rice'', lit ''wheat'', lit ''tomato''} \<Longrightarrow>
   name (get_crop_details U c) = u_title U c"
  by (simp add: get_crop_details_def CROP_INFO_def str_title_def)

section \<open>The sections of the document\<close>

lemma sublist_trans2: "sublist a b \<Longrightarrow> sublist b c \<Longrightarrow> sublist a c"
  by (rule sublist_order.order.trans)

lemma sublist_line:
  "ln \<in> set xs \<Longrightarrow> sublist mk ln \<Longrightarrow> sublist mk (str_join sep xs)"
  by (rule sublist_trans2 [OF _ sublist_str_join])

lemma str_join_append:
  "xs \<noteq> [] \<Longrightarrow> ys \<noteq> [] \<Longrightarrow>
   str_join sep (xs @ ys) = str_join sep xs @ sep @ str_join sep ys"
proof (induction xs)
  case Nil
  then show ?case by simp
next
  case (Cons x xs)
  then show ?case by (cases "xs = []") (simp_all add: str_join_Cons)
qed

lemma sublist_str_join_mid: "sublist (str_join sep mid) (str_join sep (pre @ mid @ post))"
proof (cases "mid = []")
  case True
  then show ?thesis by simp
next
  case mid: False
  have post: "sublist (str_join sep mid) (str_join sep (mid @ post))"
  proof (cases "post = []")
    case True
    then show ?thesis by simp
  next
    case False
    with mid show ?thesis by (simp add: str_join_append)
  qed
  show ?thesis
  proof (cases "pre = []")
    case True
    with post show ?thesis by simp
  next
    case False
    with mid have "str_join sep (pre @ mid @ post) =
        str_join sep pre @ sep @ str_join sep (mid @ post)"
      by (simp add: str_join_append)
    moreover have "sublist (str_join sep (mid @ post))
        ((str_join sep pre @ sep) @ str_join sep (mid @ post))"
      by (rule sublist_append_leftI)
    ultimately have "sublist (str_join sep (mid @ post)) (str_join sep (pre @ mid @ post))"
      by simp
    with post show ?thesis by (rule sublist_trans2)
  qed
qed

lemma markers_in_lines:
  "lit ''## '' @ [0x1F33E] @ lit '' ABOUT THIS CROP'' \<in> set (module_lines U ci ps av ai r p l t)"
  "lit ''## '' @ [0x1F3AF] @ lit '' FOCUS AREA: '' @ str_upper U p
     \<in> set (module_lines U ci ps av ai r p l t)"
  "lit ''### RECOMMENDED TECHNIQUES:'' \<in> set (module_lines U ci ps av ai r p l t)"
  "lit ''### STEP-BY-STEP GUIDE:'' \<in> set (module_lines U ci ps av ai r p l t)"
  "lit ''## '' @ [0x1F4CA] @ lit '' EXPECTED RESULTS'' \<in> set (module_lines U ci ps av ai r p l t)"
  "lit ''## '' @ [0x1F6E0] @ [0xFE0F] @ lit '' IMPLEMENTATION TIPS''
     \<in> set (module_lines U ci ps av ai r p l t)"
  "lit ''## '' @ [0x2753] @ lit '' FREQUENTLY ASKED QUESTIONS''
     \<in> set (module_lines U ci ps av ai r p l t)"
  "lit ''## '' @ [0x1F527] @ lit '' SYSTEM INFORMATION'' \<in> set (module_lines U ci ps av ai r p l t)"
  by (simp_all add: module_lines_def about_crop_lines_def focus_area_lines_def
      expected_results_lines_def implementation_tips_lines_def faq_lines_def
      system_information_lines_def)

lemma header_line_in_lines:
  "lit ''## Crop: '' @ name ci @ lit '' | Region: '' @ r @ lit '' | Language: '' @ format_value l
     \<in> set (module_lines U ci ps av ai r p l t)"
  by (simp add: module_lines_def header_lines_def)

lemma crop_name_line_in_lines:
  "lit ''**Crop Name:** '' @ name ci \<in> set (module_lines U ci ps av ai r p l t)"
  by (simp add: module_lines_def about_crop_lines_def)

lemma techniques_line_in_lines:
  "str_join (lit '' '' @ [0x2022] @ lit '' '') (key_techniques ps)
     \<in> set (module_lines U ci ps av ai r p l t)"
  by (simp add: module_lines_def focus_area_lines_def)

lemma season_line_in_lines:
  "lit ''**Best Season:** '' @ season ci \<in> set (module_lines U ci ps av ai r p l t)"
  by (simp add: module_lines_def about_crop_lines_def)

lemma sublist_prefix_of: "sublist (a @ b @ c) (a @ b @ c @ d)"
  using sublist_append_rightI [of "a @ b @ c" d] by simp

lemma join_lines_nonempty: "str_join nl (module_lines U ci ps av ai r p l t) \<noteq> []"
proof -
  obtain rest where "module_lines U ci ps av ai r p l t = lit ''# FARMER TRAINING MODULE'' # rest"
    using module_lines_Cons by blast
  then show ?thesis by (simp add: str_join_Cons lit_eq_Nil_iff)
qed

lemma quinoa_scenario_lookups:
  "get_crop_details U (lit ''Quinoa'') =
     \<lparr>name = lit ''Quinoa'', season = lit ''Adapt to local season'',
      water = lit ''Based on local conditions'',
      spacing = lit ''Follow seed packet instructions'',
      duration = lit ''Varies by variety''\<rparr>"
  "get_problem_solution U (lit ''drought stress'') =
     \<lparr>key_techniques = [lit ''Integrated approach'', lit ''Regular monitoring''],
      steps = [lit ''Assess situation'', lit ''Plan solution'', lit ''Implement carefully''],
      benefits = lit ''Improved crop health and yield''\<rparr>"
proof -
  have l: "str_lower U (lit ''Quinoa'') = lit ''quinoa''"
    "str_lower U (lit ''drought stress'') = lit ''drought stress''"
    by (simp_all add: str_lower_def is_ascii_def lit_def to_lower_def is_upper_def)
  have t: "str_title U (lit ''Quinoa'') = lit ''Quinoa''"
    by (simp add: str_title_def is_ascii_def lit_def to_lower_def to_upper_def is_upper_def
        is_lower_def is_cased_def)
  show "get_crop_details U (lit ''Quinoa'') =
     \<lparr>name = lit ''Quinoa'', season = lit ''Adapt to local season'',
      water = lit ''Based on local conditions'',
      spacing = lit ''Follow seed packet instructions'',
      duration = lit ''Varies by variety''\<rparr>"
    by (simp add: get_crop_details_def CROP_INFO_def l t lit_eq_iff)
  show "get_problem_solution U (lit ''drought stress'') =
     \<lparr>key_techniques = [lit ''Integrated approach'', lit ''Regular monitoring''],
      steps = [lit ''Assess situation'', lit ''Plan solution'', lit ''Implement carefully''],
      benefits = lit ''Improved crop health and yield''\<rparr>"
    by (simp add: get_problem_solution_def PROBLEM_SOLUTIONS_def l lit_eq_iff)
qed

lemma quinoa_scenario_lines:
  "lit ''**Crop Name:** Quinoa''
     \<in> set (module_lines U (get_crop_details U (lit ''Quinoa''))
              (get_problem_solution U (lit ''drought stress'')) av ai r p l t)"
  "lit ''**Best Season:** Adapt to local season''
     \<in> set (module_lines U (get_crop_details U (lit ''Quinoa''))
              (get_problem_solution U (lit ''drought stress'')) av ai r p l t)"
  "lit ''Integrated approach '' @ [0x2022] @ lit '' Regular monitoring''
     \<in> set (module_lines U (get_crop_details U (lit ''Quinoa''))
              (get_problem_solution U (lit ''drought stress'')) av ai r p l t)"
proof -
  let ?ci = "get_crop_details U (lit ''Quinoa'')"
  let ?ps = "get_problem_solution U (lit ''drought stress'')"
  have "lit ''**Crop Name:** '' @ name ?ci = lit ''**Crop Name:** Quinoa''"
    by (simp only: quinoa_scenario_lookups) (simp add: lit_def)
  then show "lit ''**Crop Name:** Quinoa'' \<in> set (module_lines U ?ci ?ps av ai r p l t)"
    using crop_name_line_in_lines [of ?ci U ?ps av ai r p l t] by simp
  have "lit ''**Best Season:** '' @ season ?ci = lit ''**Best Season:** Adapt to local season''"
    by (simp only: quinoa_scenario_lookups) (simp add: lit_def)
  then show "lit ''**Best Season:** Adapt to local season''
      \<in> set (module_lines U ?ci ?ps av ai r p l t)"
    using season_line_in_lines [of ?ci U ?ps av ai r p l t] by simp
  have "str_join (lit '' '' @ [0x2022] @ lit '' '') (key_techniques ?ps) =
      lit ''Integrated approach '' @ [0x2022] @ lit '' Regular monitoring''"
    by (simp only: quinoa_scenario_lookups) (simp add: lit_def)
  then show "lit ''Integrated approach '' @ [0x2022] @ lit '' Regular monitoring''
      \<in> set (module_lines U ?ci ?ps av ai r p l t)"
    using techniques_line_in_lines [of ?ps U ?ci av ai r p l t] by simp
qed

text \<open>
  Claim C1. For every case mapping outside ASCII, hash function, clock reading, crop,
  region, problem and language, \<open>create_module\<close> returns a result, its content is not empty, and the content contains the
  heading of each of the eight parts of the document: crop facts, focus area, techniques,
  step guide, results, tips, FAQ and system information. Nothing is assumed of the crop
  or the problem, so this covers the inputs that fall back to the default profiles; for
  the crop \<^verbatim>\<open>Quinoa\<close> and the problem \<^verbatim>\<open>drought stress\<close> the document is built from
  the default profiles.
\<close>

theorem content_has_all_sections:
  "(\<exists>m. create_module U hash t crop region problem language = Inr m \<and>
       content m \<noteq> [] \<and>
       sublist (lit ''## '' @ [0x1F33E] @ lit '' ABOUT THIS CROP'') (content m) \<and>
       sublist (lit ''## '' @ [0x1F3AF] @ lit '' FOCUS AREA: '') (content m) \<and>
       sublist (lit ''### RECOMMENDED TECHNIQUES:'') (content m) \<and>
       sublist (lit ''### STEP-BY-STEP GUIDE:'') (content m) \<and>
       sublist (lit ''## '' @ [0x1F4CA] @ lit '' EXPECTED RESULTS'') (content m) \<and>
       sublist (lit ''## '' @ [0x1F6E0] @ [0xFE0F] @ lit '' IMPLEMENTATION TIPS'') (content m) \<and>
       sublist (lit ''## '' @ [0x2753] @ lit '' FREQUENTLY ASKED QUESTIONS'') (content m) \<and>
       sublist (lit ''## '' @ [0x1F527] @ lit '' SYSTEM INFORMATION'') (content m)) \<and>
   (\<exists>m. create_module U hash t (lit ''Quinoa'') region (lit ''drought stress'') language = Inr m \<and>
       content m \<noteq> [] \<and>
       sublist (lit ''**Crop Name:** Quinoa'') (content m) \<and>
       sublist (lit ''**Best Season:** Adapt to local season'') (content m) \<and>
       sublist (lit ''Integrated approach '' @ [0x2022] @ lit '' Regular monitoring'')
         (content m))"
proof
  let ?ci = "get_crop_details U crop" and ?ps = "get_problem_solution U problem"
  let ?ai = "insights crop region problem ! nat (input_hash hash crop region problem)"
  let ?doc = "str_join nl (module_lines U ?ci ?ps True ?ai region problem language t)"
  have ne: "?doc \<noteq> []" by (rule join_lines_nonempty)
  have 1: "sublist (lit ''## '' @ [0x1F33E] @ lit '' ABOUT THIS CROP'') ?doc"
    by (rule sublist_str_join) (rule markers_in_lines)
  have 2: "sublist (lit ''## '' @ [0x1F3AF] @ lit '' FOCUS AREA: '') ?doc"
    by (rule sublist_line [OF markers_in_lines(2)]) (rule sublist_prefix_of)
  have 3: "sublist (lit ''### RECOMMENDED TECHNIQUES:'') ?doc"
    by (rule sublist_str_join) (rule markers_in_lines)
  have 4: "sublist (lit ''### STEP-BY-STEP GUIDE:'') ?doc"
    by (rule sublist_str_join) (rule markers_in_lines)
  have 5: "sublist (lit ''## '' @ [0x1F4CA] @ lit '' EXPECTED RESULTS'') ?doc"
    by (rule sublist_str_join) (rule markers_in_lines)
  have 6: "sublist (lit ''## '' @ [0x1F6E0] @ [0xFE0F] @ lit '' IMPLEMENTATION TIPS'') ?doc"
    by (rule sublist_str_join) (rule markers_in_lines)
  have 7: "sublist (lit ''## '' @ [0x2753] @ lit '' FREQUENTLY ASKED QUESTIONS'') ?doc"
    by (rule sublist_str_join) (rule markers_in_lines)
  have 8: "sublist (lit ''## '' @ [0x1F527] @ lit '' SYSTEM INFORMATION'') ?doc"
    by (rule sublist_str_join) (rule markers_in_lines)
  show "\<exists>m. create_module U hash t crop region problem language = Inr m \<and>
       content m \<noteq> [] \<and>
       sublist (lit ''## '' @ [0x1F33E] @ lit '' ABOUT THIS CROP'') (content m) \<and>
       sublist (lit ''## '' @ [0x1F3AF] @ lit '' FOCUS AREA: '') (content m) \<and>
       sublist (lit ''### RECOMMENDED TECHNIQUES:'') (content m) \<and>
       sublist (lit ''### STEP-BY-STEP GUIDE:'') (content m) \<and>
       sublist (lit ''## '' @ [0x1F4CA] @ lit '' EXPECTED RESULTS'') (content m) \<and>
       sublist (lit ''## '' @ [0x1F6E0] @ [0xFE0F] @ lit '' IMPLEMENTATION TIPS'') (content m) \<and>
       sublist (lit ''## '' @ [0x2753] @ lit '' FREQUENTLY ASKED QUESTIONS'') (content m) \<and>
       sublist (lit ''## '' @ [0x1F527] @ lit '' SYSTEM INFORMATION'') (content m)"
    unfolding create_module_eq using ne 1 2 3 4 5 6 7 8 by simp
next
  let ?ai = "insights (lit ''Quinoa'') region (lit ''drought stress'') !
      nat (input_hash hash (lit ''Quinoa'') region (lit ''drought stress''))"
  let ?doc = "str_join nl (module_lines U (get_crop_details U (lit ''Quinoa''))
      (get_problem_solution U (lit ''drought stress'')) True ?ai region (lit ''drought stress'')
      language t)"
  have ne: "?doc \<noteq> []" by (rule join_lines_nonempty)
  have 1: "sublist (lit ''**Crop Name:** Quinoa'') ?doc"
    by (rule sublist_str_join) (rule quinoa_scenario_lines)
  have 2: "sublist (lit ''**Best Season:** Adapt to local season'') ?doc"
    by (rule sublist_str_join) (rule quinoa_scenario_lines)
  have 3: "sublist (lit ''Integrated approach '' @ [0x2022] @ lit '' Regular monitoring'') ?doc"
    by (rule sublist_str_join) (rule quinoa_scenario_lines)
  show "\<exists>m. create_module U hash t (lit ''Quinoa'') region (lit ''drought stress'') language =
         Inr m \<and>
       content m \<noteq> [] \<and>
       sublist (lit ''**Crop Name:** Quinoa'') (content m) \<and>
       sublist (lit ''**Best Season:** Adapt to local season'') (content m) \<and>
       sublist (lit ''Integrated approach '' @ [0x2022] @ lit '' Regular monitoring'')
         (content m)"
    unfolding create_module_eq using ne 1 2 3 by simp
qed

section \<open>Metadata\<close>

lemma str_lower_irrigation: "str_lower U (lit ''irrigation'') = lit ''irrigation''"
  by (simp add: str_lower_def is_ascii_def lit_def to_lower_def is_upper_def)

lemma rice_scenario_lookups:
  "name (get_crop_details U (lit ''Rice'')) = lit ''Rice''"
  "key_techniques (get_problem_solution U (lit ''irrigation'')) =
     [lit ''Drip irrigation'', lit ''Sprinkler systems'', lit ''Rainwater harvesting'']"
  by (simp_all add: get_crop_details_def get_problem_solution_def CROP_INFO_def
      PROBLEM_SOLUTIONS_def str_lower_examples str_lower_irrigation lit_eq_iff)

text \<open>
  Claim C4. For every input, the metadata returned by \<open>create_module\<close> holds the crop,
  the region, the problem and the language exactly as they were passed, and \<open>ai_used\<close> is
  true. For Rice, Punjab, irrigation and English the metadata is the one of the scenario,
  and the content contains \<^verbatim>\<open>Rice\<close>, \<^verbatim>\<open>Punjab\<close> and the three irrigation techniques
  joined by bullets. \<open>check_ai_availability\<close> is true.
\<close>

theorem metadata_echoes_inputs:
  "(\<exists>m. create_module U hash t crop region problem language = Inr m \<and>
        metadata m =
          \<lparr>generation_time = t, md_crop = crop, md_region = region, md_problem = problem,
           md_language = language, ai_used = True\<rparr>) \<and>
   (\<exists>m. create_module U hash t (lit ''Rice'') (lit ''Punjab'') (lit ''irrigation'')
          (PStr (lit ''English'')) = Inr m \<and>
        metadata m =
          \<lparr>generation_time = t, md_crop = lit ''Rice'', md_region = lit ''Punjab'',
           md_problem = lit ''irrigation'', md_language = PStr (lit ''English''),
           ai_used = True\<rparr> \<and>
        sublist (lit ''Rice'') (content m) \<and>
        sublist (lit ''Punjab'') (content m) \<and>
        sublist
          (lit ''Drip irrigation '' @ [0x2022] @ lit '' Sprinkler systems '' @ [0x2022] @
           lit '' Rainwater harvesting'')
          (content m)) \<and>
   check_ai_availability = True"
proof -
  let ?ci = "get_crop_details U (lit ''Rice'')"
  let ?ps = "get_problem_solution U (lit ''irrigation'')"
  let ?ai = "insights (lit ''Rice'') (lit ''Punjab'') (lit ''irrigation'') !
      nat (input_hash hash (lit ''Rice'') (lit ''Punjab'') (lit ''irrigation''))"
  let ?ls = "module_lines U ?ci ?ps True ?ai (lit ''Punjab'') (lit ''irrigation'')
      (PStr (lit ''English'')) t"
  have rice: "sublist (lit ''Rice'') (str_join nl ?ls)"
  proof (rule sublist_line [OF crop_name_line_in_lines])
    show "sublist (lit ''Rice'') (lit ''**Crop Name:** '' @ name ?ci)"
      by (simp add: rice_scenario_lookups)
  qed
  have punjab: "sublist (lit ''Punjab'') (str_join nl ?ls)"
  proof (rule sublist_line [OF header_line_in_lines])
    have "sublist (lit ''Punjab'')
        ((lit ''## Crop: '' @ name ?ci @ lit '' | Region: '') @ lit ''Punjab'' @
         (lit '' | Language: '' @ format_value (PStr (lit ''English''))))"
      by (rule sublist_appendI)
    then show "sublist (lit ''Punjab'')
        (lit ''## Crop: '' @ name ?ci @ lit '' | Region: '' @ lit ''Punjab'' @
         lit '' | Language: '' @ format_value (PStr (lit ''English'')))"
      by simp
  qed
  have "str_join (lit '' '' @ [0x2022] @ lit '' '') (key_techniques ?ps) =
      lit ''Drip irrigation '' @ [0x2022] @ lit '' Sprinkler systems '' @ [0x2022] @
      lit '' Rainwater harvesting''"
    by (simp only: rice_scenario_lookups) (simp add: lit_def)
  then have tech: "sublist
      (lit ''Drip irrigation '' @ [0x2022] @ lit '' Sprinkler systems '' @ [0x2022] @
       lit '' Rainwater harvesting'') (str_join nl ?ls)"
    using sublist_str_join [OF techniques_line_in_lines [of ?ps U ?ci True ?ai "lit ''Punjab''"
          "lit ''irrigation''" "PStr (lit ''English'')" t], of nl]
    by simp
  show ?thesis
    unfolding create_module_eq using rice punjab tech
    by (simp add: check_ai_availability_def)
qed

section \<open>Selecting the insight\<close>

lemma insights_nth:
  "i < 4 \<Longrightarrow> insights c r p ! i \<in> set (insights c r p)"
  by (simp add: length_insights)

text \<open>
  Claim C5. Within one process run (one hash function), two calls of
  \<open>generate_ai_insight\<close> with the same crop, region and problem both return, and return the
  same string.
\<close>

theorem insight_deterministic:
  "crop' = crop \<Longrightarrow> region' = region \<Longrightarrow> problem' = problem \<Longrightarrow>
   \<exists>s. generate_ai_insight hash crop region problem = Inr s \<and>
       generate_ai_insight hash crop' region' problem' = Inr s"
  by (simp add: generate_ai_insight_eq)

theorem insight_deterministic_witness:
  "\<exists>s. generate_ai_insight (int \<circ> length) (lit ''Rice'') (lit ''Punjab'') (lit ''irrigation'') =
         Inr s \<and>
       generate_ai_insight (int \<circ> length) (lit ''Rice'') (lit ''Punjab'') (lit ''irrigation'') =
         Inr s"
  using insight_deterministic [of "lit ''Rice''" "lit ''Rice''" "lit ''Punjab''" "lit ''Punjab''"
      "lit ''irrigation''" "lit ''irrigation''" "int \<circ> length"]
  by simp

text \<open>
  Claim C6, as amended. \<open>generate_ai_insight\<close> builds a list of exactly four messages
  from the crop, the region and the problem, hashes the concatenation of the three raw
  strings to an integer that may be negative, and indexes the list with the hash modulo
  four. Python's modulo takes the sign of the divisor, so whatever integer the hash is, the
  index lies between 0 and 3, the lookup never raises and the result is one of the four
  messages.
\<close>

theorem insight_selection_in_bounds:
  "insights crop region problem =
     [lit ''AI analysis suggests focusing on '' @ region @ lit ''-specific adaptation for '' @
        crop @ lit ''.'',
      lit ''Machine learning models indicate integrated approach works best for '' @ problem @
        lit ''.'',
      lit ''Data patterns show '' @ crop @ lit '' responds well to timely '' @ problem @
        lit '' management.'',
      lit ''AI recommendation: Combine traditional knowledge with modern techniques.''] \<and>
   length (insights crop region problem) = 4 \<and>
   input_hash hash crop region problem = hash (crop @ region @ problem) mod 4 \<and>
   0 \<le> input_hash hash crop region problem \<and>
   input_hash hash crop region problem < 4 \<and>
   generate_ai_insight hash crop region problem =
     Inr (insights crop region problem ! nat (hash (crop @ region @ problem) mod 4)) \<and>
   insights crop region problem ! nat (hash (crop @ region @ problem) mod 4)
     \<in> set (insights crop region problem)"
proof -
  have eq: "input_hash hash crop region problem = hash (crop @ region @ problem) mod 4"
    by (simp add: input_hash_def length_insights)
  have lt: "nat (hash (crop @ region @ problem) mod 4) < 4"
    by simp
  show ?thesis
    using input_hash_bounds [of hash crop region problem]
      generate_ai_insight_eq [of hash crop region problem]
      insights_nth [OF lt, of crop region problem]
    by (simp add: eq length_insights) (simp add: insights_def)
qed

text \<open>
  The claim as stated says that the hash is non-negative. In a process started with
  \<^verbatim>\<open>PYTHONHASHSEED=0\<close> the hash of the key for Rice, Punjab and irrigation is negative;
  the index is 0 all the same and the first message is returned.
\<close>

lemma seed0_hash_key:
  "seed0_hash (lit ''Rice'' @ lit ''Punjab'' @ lit ''irrigation'') = - 7598409245528420"
  by (simp add: seed0_hash_def lit_def)

theorem insight_selection_in_bounds_counterexample:
  "seed0_hash (lit ''Rice'' @ lit ''Punjab'' @ lit ''irrigation'') = - 7598409245528420 \<and>
   seed0_hash (lit ''Rice'' @ lit ''Punjab'' @ lit ''irrigation'') < 0 \<and>
   input_hash seed0_hash (lit ''Rice'') (lit ''Punjab'') (lit ''irrigation'') = 0 \<and>
   generate_ai_insight seed0_hash (lit ''Rice'') (lit ''Punjab'') (lit ''irrigation'') =
     Inr (lit ''AI analysis suggests focusing on Punjab-specific adaptation for Rice.'')"
proof -
  have i: "input_hash seed0_hash (lit ''Rice'') (lit ''Punjab'') (lit ''irrigation'') = 0"
    by (simp add: input_hash_def length_insights seed0_hash_key)
  have "generate_ai_insight seed0_hash (lit ''Rice'') (lit ''Punjab'') (lit ''irrigation'') =
      Inr (lit ''AI analysis suggests focusing on Punjab-specific adaptation for Rice.'')"
    by (simp only: generate_ai_insight_eq i) (simp add: insights_def lit_def)
  with i show ?thesis by (simp add: seed0_hash_key)
qed

section \<open>The insight shown in the document\<close>

lemma insights_nonempty: "[] \<notin> set (insights c r p)"
  by (simp add: insights_def lit_def)

lemma insights_hd: "s \<in> set (insights c r p) \<Longrightarrow> hd s \<in> {65, 77, 68}"
  by (auto simp add: insights_def lit_def)

lemma insights_not_fallback:
  "lit ''System analysis recommends integrated management approach.'' \<notin> set (insights c r p)"
proof
  assume "lit ''System analysis recommends integrated management approach.''
      \<in> set (insights c r p)"
  then have "hd (lit ''System analysis recommends integrated management approach.'')
      \<in> {65, 77, 68::nat}"
    by (rule insights_hd)
  then show False by (simp add: lit_def)
qed

lemma selected_in_insights:
  "insights c r p ! nat (input_hash hash c r p) \<in> set (insights c r p)"
  using input_hash_bounds [of hash c r p] by (simp add: length_insights)

lemma insight_block_in_lines:
  "\<exists>pre post. module_lines U ci ps av ai r p l t =
     pre @ [lit ''### AI-GENERATED INSIGHT:'', insight_line ai, [],
            lit ''### RECOMMENDED TECHNIQUES:''] @ post"
proof -
  let ?F = "focus_area_lines U ps ai r p"
  have "?F = take 2 ?F @ [lit ''### AI-GENERATED INSIGHT:'', insight_line ai, [],
            lit ''### RECOMMENDED TECHNIQUES:''] @ drop 6 ?F"
    by (simp add: focus_area_lines_def)
  then have "module_lines U ci ps av ai r p l t =
      (header_lines ci r l t @ about_crop_lines ci @ take 2 ?F) @
      [lit ''### AI-GENERATED INSIGHT:'', insight_line ai, [],
       lit ''### RECOMMENDED TECHNIQUES:''] @
      (drop 6 ?F @ expected_results_lines p @ implementation_tips_lines @ faq_lines @
       system_information_lines av t @ getting_help_lines r)"
    unfolding module_lines_def by (metis append_assoc)
  then show ?thesis by blast
qed

text \<open>
  Claim C9. \<open>check_ai_availability\<close> is true and none of the four messages is empty, so the
  insight that \<open>create_module\<close> interpolates is never empty: \<open>insight_line\<close> returns the
  selected message, which differs from the fallback sentence, and the document shows that
  message between the insight heading and the techniques heading.
\<close>

theorem fallback_insight_unreachable:
  "check_ai_availability = True \<and>
   [] \<notin> set (insights crop region problem) \<and>
   (\<exists>s m. generate_ai_insight hash crop region problem = Inr s \<and>
      s \<in> set (insights crop region problem) \<and>
      s \<noteq> [] \<and>
      insight_line s = s \<and>
      s \<noteq> lit ''System analysis recommends integrated management approach.'' \<and>
      create_module U hash t crop region problem language = Inr m \<and>
      sublist
        (lit ''### AI-GENERATED INSIGHT:'' @ nl @ s @ nl @ nl @ lit ''### RECOMMENDED TECHNIQUES:'')
        (content m))"
proof -
  let ?s = "insights crop region problem ! nat (input_hash hash crop region problem)"
  let ?ls = "module_lines U (get_crop_details U crop) (get_problem_solution U problem) True ?s region
      problem language t"
  have mem: "?s \<in> set (insights crop region problem)" by (rule selected_in_insights)
  with insights_nonempty have ne: "?s \<noteq> []" by metis
  from mem insights_not_fallback
  have nf: "?s \<noteq> lit ''System analysis recommends integrated management approach.''" by metis
  from ne have il: "insight_line ?s = ?s" by (simp add: insight_line_def)
  obtain pre post where "?ls = pre @ [lit ''### AI-GENERATED INSIGHT:'', insight_line ?s, [],
            lit ''### RECOMMENDED TECHNIQUES:''] @ post"
    using insight_block_in_lines by blast
  then have "sublist (str_join nl [lit ''### AI-GENERATED INSIGHT:'', insight_line ?s, [],
            lit ''### RECOMMENDED TECHNIQUES:'']) (str_join nl ?ls)"
    by (simp only: sublist_str_join_mid)
  then have doc: "sublist
      (lit ''### AI-GENERATED INSIGHT:'' @ nl @ ?s @ nl @ nl @ lit ''### RECOMMENDED TECHNIQUES:'')
      (str_join nl ?ls)"
    by (simp add: il)
  show ?thesis
    unfolding create_module_eq generate_ai_insight_eq
    using mem ne nf il doc insights_nonempty [of crop region problem]
    by (simp add: check_ai_availability_def)
qed

section \<open>The route handler\<close>

text \<open>
  The ways through the handler once the body is a dict: a required field is empty after
  trimming; all three are filled and the console writes the five lines; all three are
  filled and the console cannot write one of the lines; \<^verbatim>\<open>.strip()\<close> raises on a value
  that is not a string. Status 200 is reached on the second way only.
\<close>

lemma handler_rejects:
  assumes "value_strip (dict_get d (lit ''crop'') (PStr [])) = Inr crop_type"
    and "value_strip (dict_get d (lit ''region'') (PStr [])) = Inr region_name"
    and "value_strip (dict_get d (lit ''problem'') (PStr [])) = Inr problem_type"
    and "crop_type = [] \<or> region_name = [] \<or> problem_type = []"
  shows "generate_training_module U console hash t (Object d) =
     ([], \<lparr>status = 400,
           body = Failure (lit ''Please fill in all fields: Crop, Region, and Problem'')\<rparr>)"
  using assms by (simp add: generate_training_module_def try_body_def)

lemma handler_accepts:
  assumes "value_strip (dict_get d (lit ''crop'') (PStr [])) = Inr crop_type"
    and "value_strip (dict_get d (lit ''region'') (PStr [])) = Inr region_name"
    and "value_strip (dict_get d (lit ''problem'') (PStr [])) = Inr problem_type"
    and "crop_type \<noteq> []" and "region_name \<noteq> []" and "problem_type \<noteq> []"
    and "list_all console
           (debug_lines crop_type region_name problem_type
              (dict_get d (lit ''language'') (PStr (lit ''English''))))"
    and "create_module U hash t crop_type region_name problem_type
           (dict_get d (lit ''language'') (PStr (lit ''English''))) = Inr m"
  shows "generate_training_module U console hash t (Object d) =
     ([(crop_type, region_name, problem_type,
        dict_get d (lit ''language'') (PStr (lit ''English'')))],
      \<lparr>status = 200,
       body =
         Success
           \<lparr>title = str_title U crop_type @ lit '' Farming Training Module'',
            subtitle =
              lit ''Region: '' @ region_name @ lit '' | Focus: '' @ str_title U problem_type,
            data_content = content m,
            data_language = dict_get d (lit ''language'') (PStr (lit ''English''))\<rparr>
           \<lparr>generated_at = generation_time (metadata m),
            ai_assistance = ai_used (metadata m)\<rparr>\<rparr>)"
  using assms by (simp add: generate_training_module_def try_body_def Let_def)

lemma handler_cannot_print:
  assumes "value_strip (dict_get d (lit ''crop'') (PStr [])) = Inr crop_type"
    and "value_strip (dict_get d (lit ''region'') (PStr [])) = Inr region_name"
    and "value_strip (dict_get d (lit ''problem'') (PStr [])) = Inr problem_type"
    and "crop_type \<noteq> []" and "region_name \<noteq> []" and "problem_type \<noteq> []"
    and "\<not> list_all console
           (debug_lines crop_type region_name problem_type
              (dict_get d (lit ''language'') (PStr (lit ''English''))))"
  shows "generate_training_module U console hash t (Object d) =
     ([], \<lparr>status = 500,
           body = Failure (lit ''Could not generate training module. Please try again.'')\<rparr>)"
  using assms by (simp add: generate_training_module_def try_body_def Let_def)

lemma handler_raises:
  assumes "value_strip (dict_get d (lit ''crop'') (PStr [])) = Inl e1 \<or>
     value_strip (dict_get d (lit ''region'') (PStr [])) = Inl e2 \<or>
     value_strip (dict_get d (lit ''problem'') (PStr [])) = Inl e3"
  shows "generate_training_module U console hash t (Object d) =
     ([], \<lparr>status = 500,
           body = Failure (lit ''Could not generate training module. Please try again.'')\<rparr>)"
  using assms
  by (auto simp add: generate_training_module_def try_body_def Let_def split: sum.splits)

lemma handler_success_only:
  assumes "status (snd (generate_training_module U console hash t (Object d))) = 200"
  shows "\<exists>crop_type region_name problem_type.
     value_strip (dict_get d (lit ''crop'') (PStr [])) = Inr crop_type \<and>
     value_strip (dict_get d (lit ''region'') (PStr [])) = Inr region_name \<and>
     value_strip (dict_get d (lit ''problem'') (PStr [])) = Inr problem_type \<and>
     crop_type \<noteq> [] \<and> region_name \<noteq> [] \<and> problem_type \<noteq> [] \<and>
     list_all console
       (debug_lines crop_type region_name problem_type
          (dict_get d (lit ''language'') (PStr (lit ''English''))))"
proof -
  let ?c = "value_strip (dict_get d (lit ''crop'') (PStr []))"
  let ?r = "value_strip (dict_get d (lit ''region'') (PStr []))"
  let ?p = "value_strip (dict_get d (lit ''problem'') (PStr []))"
  have no_raise: "\<not> ((\<exists>e. ?c = Inl e) \<or> (\<exists>e. ?r = Inl e) \<or> (\<exists>e. ?p = Inl e))"
  proof
    assume "(\<exists>e. ?c = Inl e) \<or> (\<exists>e. ?r = Inl e) \<or> (\<exists>e. ?p = Inl e)"
    then obtain e1 e2 e3 where "?c = Inl e1 \<or> ?r = Inl e2 \<or> ?p = Inl e3" by blast
    then have "status (snd (generate_training_module U console hash t (Object d))) = 500"
      by (simp add: handler_raises)
    with assms show False by simp
  qed
  then obtain a b c where abc: "?c = Inr a" "?r = Inr b" "?p = Inr c"
    by (metis sum.exhaust)
  have ne: "a \<noteq> [] \<and> b \<noteq> [] \<and> c \<noteq> []"
  proof (rule ccontr)
    assume "\<not> (a \<noteq> [] \<and> b \<noteq> [] \<and> c \<noteq> [])"
    then have "a = [] \<or> b = [] \<or> c = []" by blast
    with abc have "status (snd (generate_training_module U console hash t (Object d))) = 400"
      by (simp add: handler_rejects)
    with assms show False by simp
  qed
  have pr: "list_all console
      (debug_lines a b c (dict_get d (lit ''language'') (PStr (lit ''English''))))"
  proof (rule ccontr)
    assume "\<not> list_all console
      (debug_lines a b c (dict_get d (lit ''language'') (PStr (lit ''English''))))"
    with abc ne
    have "status (snd (generate_training_module U console hash t (Object d))) = 500"
      by (simp add: handler_cannot_print)
    with assms show False by simp
  qed
  from abc ne pr show ?thesis by blast
qed

lemma str_strip_examples:
  "str_strip [] = []"
  "str_strip (lit ''   '') = []"
  "str_strip (lit '' Rice '') = lit ''Rice''"
  "str_strip (lit ''Rice'') = lit ''Rice''"
  "str_strip (lit ''Punjab'') = lit ''Punjab''"
  "str_strip (lit ''irrigation'') = lit ''irrigation''"
  "str_strip [0xD800] = [0xD800]"
  by (simp_all add: str_strip_def lit_def is_space_def)

lemma field_names_distinct:
  "lit ''crop'' \<noteq> lit ''region''" "lit ''crop'' \<noteq> lit ''problem''"
  "lit ''crop'' \<noteq> lit ''language''" "lit ''region'' \<noteq> lit ''problem''"
  "lit ''region'' \<noteq> lit ''language''" "lit ''problem'' \<noteq> lit ''language''"
  "lit ''region'' \<noteq> lit ''crop''" "lit ''problem'' \<noteq> lit ''crop''"
  "lit ''language'' \<noteq> lit ''crop''" "lit ''problem'' \<noteq> lit ''region''"
  "lit ''language'' \<noteq> lit ''region''" "lit ''language'' \<noteq> lit ''problem''"
  by (simp_all add: lit_eq_iff)

lemma utf8_console_examples:
  "list_all utf8_console
     (debug_lines (lit ''Rice'') (lit ''Punjab'') (lit ''irrigation'') (PStr (lit ''English'')))"
  "list_all utf8_console
     (debug_lines (lit ''Rice'') (lit ''Punjab'') (lit ''irrigation'') (PStr (lit ''  '')))"
  "list_all utf8_console
     (debug_lines (lit ''Rice'') (lit ''Punjab'') (lit ''irrigation'') PNone)"
  "\<not> list_all utf8_console
     (debug_lines [0xD800] (lit ''Punjab'') (lit ''irrigation'') (PStr (lit ''English'')))"
  by (simp_all add: debug_lines_def utf8_console_def lit_def nl_def)




section \<open>The language of the module\<close>

lemma language_in_header:
  "sublist (lit '' | Language: '' @ format_value l @ nl)
     (str_join nl (module_lines U ci ps av ai r p l t))"
proof -
  have "\<exists>rest. rest \<noteq> [] \<and> module_lines U ci ps av ai r p l t =
      lit ''# FARMER TRAINING MODULE'' #
      (lit ''## Crop: '' @ name ci @ lit '' | Region: '' @ r @ lit '' | Language: '' @
       format_value l) # rest"
    by (simp add: module_lines_def header_lines_def)
  then obtain rest where "rest \<noteq> []" and "module_lines U ci ps av ai r p l t =
      lit ''# FARMER TRAINING MODULE'' #
      (lit ''## Crop: '' @ name ci @ lit '' | Region: '' @ r @ lit '' | Language: '' @
       format_value l) # rest"
    by blast
  then have "str_join nl (module_lines U ci ps av ai r p l t) =
      (lit ''# FARMER TRAINING MODULE'' @ nl @ lit ''## Crop: '' @ name ci @
       lit '' | Region: '' @ r) @
      (lit '' | Language: '' @ format_value l @ nl) @ str_join nl rest"
    by (simp add: str_join_Cons)
  then show ?thesis by (simp only: sublist_appendI)
qed

lemma create_module_language:
  "\<exists>m. create_module U hash t c r p l = Inr m \<and> md_language (metadata m) = l \<and>
       sublist (lit '' | Language: '' @ format_value l @ nl) (content m)"
  unfolding create_module_eq using language_in_header by simp

lemma absent_field_strip: "d k = None \<Longrightarrow> value_strip (dict_get d k (PStr [])) = Inr []"
  by (simp add: dict_get_def str_strip_examples)

lemma handler_missing_field:
  assumes "d (lit ''crop'') = None \<or> d (lit ''region'') = None \<or> d (lit ''problem'') = None"
  shows "\<exists>code msg. generate_training_module U console hash t (Object d) =
      ([], \<lparr>status = code, body = Failure msg\<rparr>)"
proof -
  let ?c = "value_strip (dict_get d (lit ''crop'') (PStr []))"
  let ?r = "value_strip (dict_get d (lit ''region'') (PStr []))"
  let ?p = "value_strip (dict_get d (lit ''problem'') (PStr []))"
  show ?thesis
  proof (cases "(\<exists>e. ?c = Inl e) \<or> (\<exists>e. ?r = Inl e) \<or> (\<exists>e. ?p = Inl e)")
    case True
    then obtain e1 e2 e3 where "?c = Inl e1 \<or> ?r = Inl e2 \<or> ?p = Inl e3" by blast
    then show ?thesis using handler_raises by blast
  next
    case False
    then obtain a b c where abc: "?c = Inr a" "?r = Inr b" "?p = Inr c"
      by (metis sum.exhaust)
    from assms abc have "a = [] \<or> b = [] \<or> c = []"
      using absent_field_strip [of d] by auto
    with abc show ?thesis using handler_rejects by blast
  qed
qed

lemma handler_generated:
  assumes "status (snd (generate_training_module U console hash t (Object d))) = 200"
    and "dict_get d (lit ''language'') (PStr (lit ''English'')) = l"
  shows "\<exists>crop_type region_name problem_type m.
     value_strip (dict_get d (lit ''crop'') (PStr [])) = Inr crop_type \<and>
     value_strip (dict_get d (lit ''region'') (PStr [])) = Inr region_name \<and>
     value_strip (dict_get d (lit ''problem'') (PStr [])) = Inr problem_type \<and>
     fst (generate_training_module U console hash t (Object d)) =
       [(crop_type, region_name, problem_type, l)] \<and>
     create_module U hash t crop_type region_name problem_type l = Inr m \<and>
     md_language (metadata m) = l \<and>
     sublist (lit '' | Language: '' @ format_value l @ nl) (content m) \<and>
     body (snd (generate_training_module U console hash t (Object d))) =
       Success
         \<lparr>title = str_title U crop_type @ lit '' Farming Training Module'',
          subtitle =
            lit ''Region: '' @ region_name @ lit '' | Focus: '' @ str_title U problem_type,
          data_content = content m,
          data_language = l\<rparr>
         \<lparr>generated_at = generation_time (metadata m),
          ai_assistance = ai_used (metadata m)\<rparr>"
proof -
  from assms(1) obtain a b c where f:
      "value_strip (dict_get d (lit ''crop'') (PStr [])) = Inr a"
      "value_strip (dict_get d (lit ''region'') (PStr [])) = Inr b"
      "value_strip (dict_get d (lit ''problem'') (PStr [])) = Inr c"
      "a \<noteq> []" "b \<noteq> []" "c \<noteq> []"
      "list_all console (debug_lines a b c (dict_get d (lit ''language'') (PStr (lit ''English''))))"
    using handler_success_only by blast
  obtain m where m: "create_module U hash t a b c l = Inr m" "md_language (metadata m) = l"
      "sublist (lit '' | Language: '' @ format_value l @ nl) (content m)"
    using create_module_language by blast
  from m(1) assms(2)
  have "create_module U hash t a b c (dict_get d (lit ''language'') (PStr (lit ''English''))) =
      Inr m"
    by simp
  from handler_accepts [OF f this]
  have "generate_training_module U console hash t (Object d) =
      ([(a, b, c, l)],
       \<lparr>status = 200,
        body =
          Success
            \<lparr>title = str_title U a @ lit '' Farming Training Module'',
             subtitle = lit ''Region: '' @ b @ lit '' | Focus: '' @ str_title U c,
             data_content = content m,
             data_language = l\<rparr>
            \<lparr>generated_at = generation_time (metadata m),
             ai_assistance = ai_used (metadata m)\<rparr>\<rparr>)"
    by (simp add: assms(2))
  with f(1-3) m show ?thesis by simp
qed

lemma handler_status_ok:
  assumes "value_strip (dict_get d (lit ''crop'') (PStr [])) = Inr crop_type"
    and "value_strip (dict_get d (lit ''region'') (PStr [])) = Inr region_name"
    and "value_strip (dict_get d (lit ''problem'') (PStr [])) = Inr problem_type"
    and "crop_type \<noteq> []" and "region_name \<noteq> []" and "problem_type \<noteq> []"
    and "list_all console
           (debug_lines crop_type region_name problem_type
              (dict_get d (lit ''language'') (PStr (lit ''English''))))"
  shows "status (snd (generate_training_module U console hash t (Object d))) = 200"
proof -
  obtain m where "create_module U hash t crop_type region_name problem_type
      (dict_get d (lit ''language'') (PStr (lit ''English''))) = Inr m"
    using create_module_eq by blast
  from handler_accepts [OF assms this] show ?thesis by simp
qed

text \<open>
  Claim C8. Whenever a module is generated (the response has status 200) from a payload
  without a \<^verbatim>\<open>language\<close> field, its language is \<^verbatim>\<open>English\<close>: in the one call to
  \<open>create_module\<close>, whose other arguments are the trimmed fields, in the metadata, in the
  header of the document and in the response data. A module is generated when the three
  required fields are strings that are not empty after trimming and the console writes
  the lines that the handler prints. The other three fields have no such default: when
  one of them is absent, the response is a failure and \<open>create_module\<close> is not called.
  The call of \<open>create_module\<close> without a language argument uses \<^verbatim>\<open>English\<close> as well.
\<close>

theorem absent_language_is_English:
  "(d (lit ''language'') = None \<and>
    status (snd (generate_training_module U console hash t (Object d))) = 200 \<longrightarrow>
      (\<exists>crop_type region_name problem_type m.
         value_strip (dict_get d (lit ''crop'') (PStr [])) = Inr crop_type \<and>
         value_strip (dict_get d (lit ''region'') (PStr [])) = Inr region_name \<and>
         value_strip (dict_get d (lit ''problem'') (PStr [])) = Inr problem_type \<and>
         fst (generate_training_module U console hash t (Object d)) =
           [(crop_type, region_name, problem_type, PStr (lit ''English''))] \<and>
         create_module U hash t crop_type region_name problem_type (PStr (lit ''English'')) =
           Inr m \<and>
         md_language (metadata m) = PStr (lit ''English'') \<and>
         sublist (lit '' | Language: English'' @ nl) (content m) \<and>
         body (snd (generate_training_module U console hash t (Object d))) =
           Success
             \<lparr>title = str_title U crop_type @ lit '' Farming Training Module'',
              subtitle =
                lit ''Region: '' @ region_name @ lit '' | Focus: '' @ str_title U problem_type,
              data_content = content m,
              data_language = PStr (lit ''English'')\<rparr>
             \<lparr>generated_at = generation_time (metadata m),
              ai_assistance = ai_used (metadata m)\<rparr>)) \<and>
   (d (lit ''language'') = None \<and>
    value_strip (dict_get d (lit ''crop'') (PStr [])) = Inr c \<and>
    value_strip (dict_get d (lit ''region'') (PStr [])) = Inr r \<and>
    value_strip (dict_get d (lit ''problem'') (PStr [])) = Inr p \<and>
    c \<noteq> [] \<and> r \<noteq> [] \<and> p \<noteq> [] \<and>
    list_all console (debug_lines c r p (PStr (lit ''English''))) \<longrightarrow>
      status (snd (generate_training_module U console hash t (Object d))) = 200) \<and>
   (d (lit ''crop'') = None \<or> d (lit ''region'') = None \<or> d (lit ''problem'') = None \<longrightarrow>
      (\<exists>code msg. generate_training_module U console hash t (Object d) =
         ([], \<lparr>status = code, body = Failure msg\<rparr>))) \<and>
   (\<exists>m. create_module_default U hash t crop region problem = Inr m \<and>
        md_language (metadata m) = PStr (lit ''English''))"
proof (intro conjI impI)
  assume a: "d (lit ''language'') = None \<and>
    status (snd (generate_training_module U console hash t (Object d))) = 200"
  then have l: "dict_get d (lit ''language'') (PStr (lit ''English'')) = PStr (lit ''English'')"
    by (simp add: dict_get_def)
  have e: "lit '' | Language: '' @ format_value (PStr (lit ''English'')) @ nl =
      lit '' | Language: English'' @ nl"
    by (simp add: lit_def)
  from a handler_generated [OF _ l, of U console hash t]
  show "\<exists>crop_type region_name problem_type m.
      value_strip (dict_get d (lit ''crop'') (PStr [])) = Inr crop_type \<and>
      value_strip (dict_get d (lit ''region'') (PStr [])) = Inr region_name \<and>
      value_strip (dict_get d (lit ''problem'') (PStr [])) = Inr problem_type \<and>
      fst (generate_training_module U console hash t (Object d)) =
        [(crop_type, region_name, problem_type, PStr (lit ''English''))] \<and>
      create_module U hash t crop_type region_name problem_type (PStr (lit ''English'')) =
        Inr m \<and>
      md_language (metadata m) = PStr (lit ''English'') \<and>
      sublist (lit '' | Language: English'' @ nl) (content m) \<and>
      body (snd (generate_training_module U console hash t (Object d))) =
        Success
          \<lparr>title = str_title U crop_type @ lit '' Farming Training Module'',
           subtitle =
             lit ''Region: '' @ region_name @ lit '' | Focus: '' @ str_title U problem_type,
           data_content = content m,
           data_language = PStr (lit ''English'')\<rparr>
          \<lparr>generated_at = generation_time (metadata m),
           ai_assistance = ai_used (metadata m)\<rparr>"
    unfolding e by simp
next
  assume a: "d (lit ''language'') = None \<and>
    value_strip (dict_get d (lit ''crop'') (PStr [])) = Inr c \<and>
    value_strip (dict_get d (lit ''region'') (PStr [])) = Inr r \<and>
    value_strip (dict_get d (lit ''problem'') (PStr [])) = Inr p \<and>
    c \<noteq> [] \<and> r \<noteq> [] \<and> p \<noteq> [] \<and>
    list_all console (debug_lines c r p (PStr (lit ''English'')))"
  then have l: "dict_get d (lit ''language'') (PStr (lit ''English'')) = PStr (lit ''English'')"
    by (simp add: dict_get_def)
  from a show "status (snd (generate_training_module U console hash t (Object d))) = 200"
    by (intro handler_status_ok [of d c r p]) (simp_all add: l)
next
  assume "d (lit ''crop'') = None \<or> d (lit ''region'') = None \<or> d (lit ''problem'') = None"
  then show "\<exists>code msg. generate_training_module U console hash t (Object d) =
      ([], \<lparr>status = code, body = Failure msg\<rparr>)"
    by (rule handler_missing_field)
next
  show "\<exists>m. create_module_default U hash t crop region problem = Inr m \<and>
      md_language (metadata m) = PStr (lit ''English'')"
    unfolding create_module_default_def using create_module_language by blast
qed

theorem absent_language_is_English_witness:
  "status (snd (generate_training_module no_unicode utf8_console (int \<circ> length)
     (lit ''04 November 2026, 09:30 AM'')
     (Object (map_of [(lit ''crop'', PStr (lit ''Rice'')), (lit ''region'', PStr (lit ''Punjab'')),
                      (lit ''problem'', PStr (lit ''irrigation''))])))) = 200 \<and>
   fst (generate_training_module no_unicode utf8_console (int \<circ> length)
     (lit ''04 November 2026, 09:30 AM'')
     (Object (map_of [(lit ''crop'', PStr (lit ''Rice'')), (lit ''region'', PStr (lit ''Punjab'')),
                      (lit ''problem'', PStr (lit ''irrigation''))]))) =
     [(lit ''Rice'', lit ''Punjab'', lit ''irrigation'', PStr (lit ''English''))] \<and>
   (\<exists>x y z i. body (snd (generate_training_module no_unicode utf8_console (int \<circ> length)
       (lit ''04 November 2026, 09:30 AM'')
       (Object (map_of [(lit ''crop'', PStr (lit ''Rice'')),
                        (lit ''region'', PStr (lit ''Punjab'')),
                        (lit ''problem'', PStr (lit ''irrigation''))])))) =
      Success \<lparr>title = x, subtitle = y, data_content = z,
               data_language = PStr (lit ''English'')\<rparr> i) \<and>
   (\<exists>code msg. generate_training_module no_unicode utf8_console (int \<circ> length)
       (lit ''04 November 2026, 09:30 AM'')
       (Object (map_of [(lit ''region'', PStr (lit ''Punjab'')),
                        (lit ''problem'', PStr (lit ''irrigation''))])) =
      ([], \<lparr>status = code, body = Failure msg\<rparr>))"
  using
    absent_language_is_English [of "map_of [(lit ''crop'', PStr (lit ''Rice'')),
        (lit ''region'', PStr (lit ''Punjab'')), (lit ''problem'', PStr (lit ''irrigation''))]"
      no_unicode utf8_console "int \<circ> length" "lit ''04 November 2026, 09:30 AM''"
      "lit ''Rice''" "lit ''Punjab''" "lit ''irrigation''"]
    absent_language_is_English [of "map_of [(lit ''region'', PStr (lit ''Punjab'')),
        (lit ''problem'', PStr (lit ''irrigation''))]"
      no_unicode utf8_console "int \<circ> length" "lit ''04 November 2026, 09:30 AM''"
      "[]" "lit ''Punjab''" "lit ''irrigation''"]
  by (auto simp add: dict_get_def field_names_distinct str_strip_examples lit_eq_Nil_iff
      utf8_console_examples)

text \<open>
  Claim C10. Whenever a module is generated (the response has status 200) from a payload
  with a \<^verbatim>\<open>language\<close> field, the value of the field, whatever it is, reaches
  \<open>create_module\<close>, the metadata and the response data unchanged, with no trimming, check
  or default, while crop, region and problem are passed trimmed; the header of the
  document shows the value as an f-string prints it, directly followed by the end of
  the line: a string as it is, \<^verbatim>\<open>None\<close> for \<^verbatim>\<open>null\<close>. A module is generated when the
  three required fields are strings that are not empty after trimming and the console
  writes the lines that the handler prints, the last of which shows the language.
\<close>

theorem present_language_used_verbatim:
  "(d (lit ''language'') = Some v \<and>
    status (snd (generate_training_module U console hash t (Object d))) = 200 \<longrightarrow>
      (\<exists>crop_type region_name problem_type m.
         value_strip (dict_get d (lit ''crop'') (PStr [])) = Inr crop_type \<and>
         value_strip (dict_get d (lit ''region'') (PStr [])) = Inr region_name \<and>
         value_strip (dict_get d (lit ''problem'') (PStr [])) = Inr problem_type \<and>
         fst (generate_training_module U console hash t (Object d)) =
           [(crop_type, region_name, problem_type, v)] \<and>
         create_module U hash t crop_type region_name problem_type v = Inr m \<and>
         md_language (metadata m) = v \<and>
         sublist (lit '' | Language: '' @ format_value v @ nl) (content m) \<and>
         body (snd (generate_training_module U console hash t (Object d))) =
           Success
             \<lparr>title = str_title U crop_type @ lit '' Farming Training Module'',
              subtitle =
                lit ''Region: '' @ region_name @ lit '' | Focus: '' @ str_title U problem_type,
              data_content = content m,
              data_language = v\<rparr>
             \<lparr>generated_at = generation_time (metadata m),
              ai_assistance = ai_used (metadata m)\<rparr>)) \<and>
   (d (lit ''language'') = Some v \<and>
    value_strip (dict_get d (lit ''crop'') (PStr [])) = Inr c \<and>
    value_strip (dict_get d (lit ''region'') (PStr [])) = Inr r \<and>
    value_strip (dict_get d (lit ''problem'') (PStr [])) = Inr p \<and>
    c \<noteq> [] \<and> r \<noteq> [] \<and> p \<noteq> [] \<and>
    list_all console (debug_lines c r p v) \<longrightarrow>
      status (snd (generate_training_module U console hash t (Object d))) = 200) \<and>
   format_value (PStr s) = s \<and>
   format_value PNone = lit ''None''"
proof (intro conjI impI)
  assume a: "d (lit ''language'') = Some v \<and>
    status (snd (generate_training_module U console hash t (Object d))) = 200"
  then have l: "dict_get d (lit ''language'') (PStr (lit ''English'')) = v"
    by (simp add: dict_get_def)
  from a handler_generated [OF _ l, of U console hash t]
  show "\<exists>crop_type region_name problem_type m.
      value_strip (dict_get d (lit ''crop'') (PStr [])) = Inr crop_type \<and>
      value_strip (dict_get d (lit ''region'') (PStr [])) = Inr region_name \<and>
      value_strip (dict_get d (lit ''problem'') (PStr [])) = Inr problem_type \<and>
      fst (generate_training_module U console hash t (Object d)) =
        [(crop_type, region_name, problem_type, v)] \<and>
      create_module U hash t crop_type region_name problem_type v = Inr m \<and>
      md_language (metadata m) = v \<and>
      sublist (lit '' | Language: '' @ format_value v @ nl) (content m) \<and>
      body (snd (generate_training_module U console hash t (Object d))) =
        Success
          \<lparr>title = str_title U crop_type @ lit '' Farming Training Module'',
           subtitle =
             lit ''Region: '' @ region_name @ lit '' | Focus: '' @ str_title U problem_type,
           data_content = content m,
           data_language = v\<rparr>
          \<lparr>generated_at = generation_time (metadata m),
           ai_assistance = ai_used (metadata m)\<rparr>"
    by simp
next
  assume a: "d (lit ''language'') = Some v \<and>
    value_strip (dict_get d (lit ''crop'') (PStr [])) = Inr c \<and>
    value_strip (dict_get d (lit ''region'') (PStr [])) = Inr r \<and>
    value_strip (dict_get d (lit ''problem'') (PStr [])) = Inr p \<and>
    c \<noteq> [] \<and> r \<noteq> [] \<and> p \<noteq> [] \<and>
    list_all console (debug_lines c r p v)"
  then have l: "dict_get d (lit ''language'') (PStr (lit ''English'')) = v"
    by (simp add: dict_get_def)
  from a show "status (snd (generate_training_module U console hash t (Object d))) = 200"
    by (intro handler_status_ok [of d c r p]) (simp_all add: l)
qed simp_all

theorem present_language_used_verbatim_witness:
  "status (snd (generate_training_module no_unicode utf8_console (int \<circ> length)
     (lit ''04 November 2026, 09:30 AM'')
     (Object (map_of [(lit ''crop'', PStr (lit ''Rice'')), (lit ''region'', PStr (lit ''Punjab'')),
                      (lit ''problem'', PStr (lit ''irrigation'')),
                      (lit ''language'', PStr (lit ''  ''))])))) = 200 \<and>
   fst (generate_training_module no_unicode utf8_console (int \<circ> length)
     (lit ''04 November 2026, 09:30 AM'')
     (Object (map_of [(lit ''crop'', PStr (lit ''Rice'')), (lit ''region'', PStr (lit ''Punjab'')),
                      (lit ''problem'', PStr (lit ''irrigation'')),
                      (lit ''language'', PStr (lit ''  ''))]))) =
     [(lit ''Rice'', lit ''Punjab'', lit ''irrigation'', PStr (lit ''  ''))] \<and>
   (\<exists>m. create_module no_unicode (int \<circ> length) (lit ''04 November 2026, 09:30 AM'')
         (lit ''Rice'') (lit ''Punjab'') (lit ''irrigation'') (PStr (lit ''  '')) = Inr m \<and>
       md_language (metadata m) = PStr (lit ''  '') \<and>
       sublist (lit '' | Language:   '' @ nl) (content m)) \<and>
   status (snd (generate_training_module no_unicode utf8_console (int \<circ> length)
     (lit ''04 November 2026, 09:30 AM'')
     (Object (map_of [(lit ''crop'', PStr (lit ''Rice'')), (lit ''region'', PStr (lit ''Punjab'')),
                      (lit ''problem'', PStr (lit ''irrigation'')),
                      (lit ''language'', PNone)])))) = 200 \<and>
   fst (generate_training_module no_unicode utf8_console (int \<circ> length)
     (lit ''04 November 2026, 09:30 AM'')
     (Object (map_of [(lit ''crop'', PStr (lit ''Rice'')), (lit ''region'', PStr (lit ''Punjab'')),
                      (lit ''problem'', PStr (lit ''irrigation'')),
                      (lit ''language'', PNone)]))) =
     [(lit ''Rice'', lit ''Punjab'', lit ''irrigation'', PNone)] \<and>
   (\<exists>m. create_module no_unicode (int \<circ> length) (lit ''04 November 2026, 09:30 AM'')
         (lit ''Rice'') (lit ''Punjab'') (lit ''irrigation'') PNone = Inr m \<and>
       md_language (metadata m) = PNone \<and>
       sublist (lit '' | Language: None'' @ nl) (content m))"
proof -
  have sp: "lit '' | Language: '' @ lit ''  '' @ nl = lit '' | Language:   '' @ nl"
    and no: "lit '' | Language: '' @ lit ''None'' @ nl = lit '' | Language: None'' @ nl"
    by (simp_all add: lit_def)
  show ?thesis
    using
      present_language_used_verbatim [of "map_of [(lit ''crop'', PStr (lit ''Rice'')),
          (lit ''region'', PStr (lit ''Punjab'')), (lit ''problem'', PStr (lit ''irrigation'')),
          (lit ''language'', PStr (lit ''  ''))]"
        "PStr (lit ''  '')" no_unicode utf8_console "int \<circ> length"
        "lit ''04 November 2026, 09:30 AM''" "lit ''Rice''" "lit ''Punjab''" "lit ''irrigation''"]
      present_language_used_verbatim [of "map_of [(lit ''crop'', PStr (lit ''Rice'')),
          (lit ''region'', PStr (lit ''Punjab'')), (lit ''problem'', PStr (lit ''irrigation'')),
          (lit ''language'', PNone)]"
        PNone no_unicode utf8_console "int \<circ> length"
        "lit ''04 November 2026, 09:30 AM''" "lit ''Rice''" "lit ''Punjab''" "lit ''irrigation''"]
    by (auto simp add: dict_get_def field_names_distinct str_strip_examples lit_eq_Nil_iff
        utf8_console_examples sp no)
qed

end
